theory Spec2Isabelle
  imports Complex_Main
begin

section \<open>Tensors\<close>

text \<open>
  The module \<^verbatim>\<open>network/latent.py\<close> is written against a tensor library. A tensor
  is modelled by its sizes and its entries in row-major order, as a contiguous tensor
  is stored. Entries are mathematical reals: rounding, infinities and NaN of the
  machine formats are outside the model, and so are dtype and device (every tensor
  of the model has the same ones, hence \<^verbatim>\<open>.to(x)\<close> is the identity).
\<close>

record tensor =
  shape :: "nat list"
  data :: "real list"

text \<open>What Python or the library raises. \<open>AssertionError\<close> is the \<^verbatim>\<open>assert\<close> of
  \<^verbatim>\<open>weight_init\<close>; \<open>ValueError\<close> is a tuple unpacking of the wrong length (or the
  initialiser refusing a tensor of fewer than two dimensions); \<open>IndexError\<close> is an
  index out of range; \<open>RuntimeError\<close> and \<open>TypeError\<close> are the library's own shape and
  type checks.\<close>

datatype error = AssertionError | ValueError | IndexError | RuntimeError | TypeError

definition numel :: "tensor \<Rightarrow> nat" where
  "numel t = prod_list (shape t)"

definition wf_tensor :: "tensor \<Rightarrow> bool" where
  "wf_tensor t \<longleftrightarrow> length (data t) = prod_list (shape t)"

text \<open>\<^verbatim>\<open>t.size(i)\<close> for a non-negative \<open>i\<close>.\<close>

definition size_at :: "tensor \<Rightarrow> nat \<Rightarrow> error + nat" where
  "size_at t i = (if i < length (shape t) then Inr (shape t ! i) else Inl IndexError)"

text \<open>\<^verbatim>\<open>torch.zeros(shp)\<close>, \<^verbatim>\<open>torch.ones(shp)\<close> and \<^verbatim>\<open>torch.ones_like(t)\<close>.\<close>

definition full :: "nat list \<Rightarrow> real \<Rightarrow> tensor" where
  "full shp v = \<lparr>shape = shp, data = replicate (prod_list shp) v\<rparr>"

definition zeros :: "nat list \<Rightarrow> tensor" where
  "zeros shp = full shp 0"

definition ones :: "nat list \<Rightarrow> tensor" where
  "ones shp = full shp 1"

definition ones_like :: "tensor \<Rightarrow> tensor" where
  "ones_like t = ones (shape t)"

text \<open>\<^verbatim>\<open>x.to(y)\<close> converts \<open>x\<close> to the dtype and device of \<open>y\<close>.\<close>

definition to_like :: "tensor \<Rightarrow> tensor \<Rightarrow> tensor" where
  "to_like x y = x"

text \<open>Entrywise operations.\<close>

definition map_tensor :: "(real \<Rightarrow> real) \<Rightarrow> tensor \<Rightarrow> tensor" where
  "map_tensor f t = t\<lparr>data := map f (data t)\<rparr>"

definition mul_scalar :: "tensor \<Rightarrow> real \<Rightarrow> tensor" where
  "mul_scalar t c = map_tensor (\<lambda>v. v * c) t"

definition add_scalar :: "tensor \<Rightarrow> real \<Rightarrow> tensor" where
  "add_scalar t c = map_tensor (\<lambda>v. v + c) t"

text \<open>\<^verbatim>\<open>F.leaky_relu\<close>, \<^verbatim>\<open>torch.tanh\<close> and \<^verbatim>\<open>F.softplus\<close> (with its defaults
  \<open>beta = 1\<close> and \<open>threshold = 20\<close>: above the threshold the library returns the
  argument itself).\<close>

definition leaky_relu :: "tensor \<Rightarrow> real \<Rightarrow> tensor" where
  "leaky_relu t negative_slope =
     map_tensor (\<lambda>v. max 0 v + negative_slope * min 0 v) t"

definition tanh_tensor :: "tensor \<Rightarrow> tensor" where
  "tanh_tensor t = map_tensor tanh t"

definition softplus1 :: "real \<Rightarrow> real" where
  "softplus1 v = (if v > 20 then v else ln (1 + exp v))"

definition softplus :: "tensor \<Rightarrow> tensor" where
  "softplus t = map_tensor softplus1 t"

text \<open>\<^verbatim>\<open>t.view(shp)\<close> with explicit sizes, and \<^verbatim>\<open>t.view(n, -1)\<close>, where the
  library infers the second size and refuses when it cannot.\<close>

definition view :: "tensor \<Rightarrow> nat list \<Rightarrow> error + tensor" where
  "view t shp = (if prod_list shp = numel t then Inr (t\<lparr>shape := shp\<rparr>) else Inl RuntimeError)"

definition view_infer :: "tensor \<Rightarrow> nat \<Rightarrow> error + tensor" where
  "view_infer t n =
     (if n = 0 \<or> numel t mod n \<noteq> 0 then Inl RuntimeError
      else Inr (t\<lparr>shape := [n, numel t div n]\<rparr>))"

subsection \<open>Slicing and joining along the last dimension\<close>

text \<open>The rows of a tensor along its last dimension: one per index of the leading
  dimensions.\<close>

definition rows :: "tensor \<Rightarrow> real list list" where
  "rows t =
     (let d = last (shape t)
      in map (\<lambda>r. take d (drop (r * d) (data t))) [0..<prod_list (butlast (shape t))])"

text \<open>\<^verbatim>\<open>t.narrow(-1, start, len)\<close> on a tensor of at least one dimension.\<close>

definition narrow_last :: "tensor \<Rightarrow> nat \<Rightarrow> nat \<Rightarrow> tensor" where
  "narrow_last t start len =
     \<lparr>shape = butlast (shape t) @ [len],
      data = concat (map (\<lambda>row. take len (drop start row)) (rows t))\<rparr>"

text \<open>\<^verbatim>\<open>torch.chunk(t, chunks, dim=-1)\<close>. The library computes the chunk size
  \<open>\<lceil>d / chunks\<rceil>\<close> and splits by it, so that the last chunk may be shorter and there
  may be fewer chunks than asked for; a dimension of size 0 gives \<open>chunks\<close> empty
  chunks.\<close>

definition chunk :: "tensor \<Rightarrow> nat \<Rightarrow> error + tensor list" where
  "chunk t chunks =
     (if shape t = [] \<or> chunks = 0 then Inl RuntimeError
      else
        let dim_size = last (shape t);
            split_size = (dim_size + chunks - 1) div chunks
        in if split_size = 0 \<and> dim_size = 0 then Inr (replicate chunks (narrow_last t 0 0))
           else
             let num_splits = max ((dim_size + split_size - 1) div split_size) 1;
                 last_split_size = split_size - (split_size * num_splits - dim_size)
             in Inr (map (\<lambda>j. narrow_last t (j * split_size)
                               (if j = num_splits - 1 then last_split_size else split_size))
                       [0..<num_splits]))"

text \<open>\<^verbatim>\<open>torch.cat(ts, dim=-1)\<close>: the list is not empty, the tensors agree on their
  leading sizes, and (a legacy rule of the library) one-dimensional empty tensors are
  skipped.\<close>

definition should_skip :: "tensor \<Rightarrow> bool" where
  "should_skip t \<longleftrightarrow> shape t = [0]"

definition cat :: "tensor list \<Rightarrow> error + tensor" where
  "cat ts =
     (case ts of
        [] \<Rightarrow> Inl RuntimeError
      | t0 # _ \<Rightarrow>
          (case filter (\<lambda>t. \<not> should_skip t) ts of
             [] \<Rightarrow> Inr t0
           | u # us \<Rightarrow>
               if shape u \<noteq> [] \<and> list_all (\<lambda>v. shape v \<noteq> [] \<and> butlast (shape v) = butlast (shape u)) us
               then Inr \<lparr>shape = butlast (shape u) @ [sum_list (map (\<lambda>v. last (shape v)) (u # us))],
                         data = concat (map (\<lambda>r. concat (map (\<lambda>v. rows v ! r) (u # us)))
                                          [0..<prod_list (butlast (shape u))])\<rparr>
               else Inl RuntimeError))"

subsection \<open>Broadcasting\<close>

text \<open>\<^verbatim>\<open>torch.broadcast_tensors\<close> on two tensors: sizes are aligned from the right;
  two sizes are compatible when they are equal or one of them is 1.\<close>

definition pad_shape :: "nat \<Rightarrow> nat list \<Rightarrow> nat list" where
  "pad_shape n shp = replicate (n - length shp) 1 @ shp"

definition broadcast_shapes :: "nat list \<Rightarrow> nat list \<Rightarrow> error + nat list" where
  "broadcast_shapes a b =
     (let n = max (length a) (length b);
          a' = pad_shape n a;
          b' = pad_shape n b
      in if list_all2 (\<lambda>x y. x = y \<or> x = 1 \<or> y = 1) a' b'
         then Inr (map2 (\<lambda>x y. if x = 1 then y else x) a' b')
         else Inl RuntimeError)"

fun expand_data :: "nat list \<Rightarrow> nat list \<Rightarrow> real list \<Rightarrow> real list" where
  "expand_data (d # ds) (e # es) xs =
     (let m = prod_list ds;
          blocks = concat (map (\<lambda>i. expand_data ds es (take m (drop (i * m) xs))) [0..<d])
      in if d = e then blocks else concat (replicate e blocks))"
| "expand_data _ _ xs = xs"

definition expand :: "tensor \<Rightarrow> nat list \<Rightarrow> tensor" where
  "expand t shp = \<lparr>shape = shp, data = expand_data (pad_shape (length shp) (shape t)) shp (data t)\<rparr>"

section \<open>Distributions\<close>

text \<open>\<^verbatim>\<open>torch.distributions.Normal(loc, scale)\<close> broadcasts its two arguments against
  each other, stores them, and validates them, as it does by default: the scale must
  be positive at every position, or the constructor raises \<^verbatim>\<open>ValueError\<close>. (The
  other check, that the mean is a real number, never fails on the entries of this
  model.)\<close>

record normal =
  loc :: tensor
  scale :: tensor

definition Normal :: "tensor \<Rightarrow> tensor \<Rightarrow> error + normal" where
  "Normal l s =
     (case broadcast_shapes (shape l) (shape s) of
        Inl e \<Rightarrow> Inl e
      | Inr shp \<Rightarrow>
          if list_all (\<lambda>v. 0 < v) (data (expand s shp))
          then Inr \<lparr>loc = expand l shp, scale = expand s shp\<rparr>
          else Inl ValueError)"

section \<open>Modules of the library\<close>

text \<open>What a forward pass receives: a tensor, or a Python list or tuple of tensors.\<close>

datatype pyval = PyTensor tensor | PyList "tensor list" | PyTuple "tensor list"

text \<open>The layers of \<^verbatim>\<open>torch.nn\<close> this file builds or meets. A layer owns its
  parameters: the entries of its weight and of its bias, whose sizes follow from the
  layer's declaration (a convolution keeps its kernel size as a pair).\<close>

datatype nn_module =
    Linear nat nat "real list" "real list"
  | Conv2d nat nat "nat \<times> nat" nat nat "real list" "real list"
  | ConvTranspose2d nat nat "nat \<times> nat" nat nat nat "real list" "real list"
  | LeakyReLU real
  | ReLU
  | Sequential "nn_module list"


text \<open>Calling a module, \<^verbatim>\<open>m(x)\<close>, is the library's business: the arithmetic of a
  convolution or of a linear layer is not modelled. A call is a parameter of the
  model: it returns the output or raises, and the module as the call leaves it.\<close>

type_synonym forward_fn = "nn_module \<Rightarrow> pyval \<Rightarrow> (error + tensor) \<times> nn_module"

text \<open>The random initialisers of the library draw from a generator of type \<open>'g\<close>:
  \<open>init_fresh\<close> is the default initialisation of a new parameter of the given sizes,
  \<open>init_orthogonal\<close> is the sample \<^verbatim>\<open>nn.init.orthogonal_\<close> writes into a tensor of the
  given sizes, scaled by the gain. Both return as many entries as the sizes ask for.\<close>

record 'g torch_init =
  init_fresh :: "nat list \<Rightarrow> 'g \<Rightarrow> real list \<times> 'g"
  init_orthogonal :: "nat list \<Rightarrow> real \<Rightarrow> 'g \<Rightarrow> real list \<times> 'g"

text \<open>\<^verbatim>\<open>nn.Conv2d(in_channels, out_channels, kernel_size, stride, padding)\<close> and
  \<^verbatim>\<open>nn.ConvTranspose2d(in_channels, out_channels, kernel_size, stride, padding,
  output_padding)\<close> with an integer kernel size, which the library turns into the
  pair \<open>(k, k)\<close>.\<close>

definition nn_Conv2d ::
  "'g torch_init \<Rightarrow> nat \<Rightarrow> nat \<Rightarrow> nat \<Rightarrow> nat \<Rightarrow> nat \<Rightarrow> 'g \<Rightarrow> nn_module \<times> 'g" where
  "nn_Conv2d ti in_channels out_channels k stride padding g =
     (case init_fresh ti [out_channels, in_channels, k, k] g of
        (w, g1) \<Rightarrow>
          (case init_fresh ti [out_channels] g1 of
             (b, g2) \<Rightarrow> (Conv2d in_channels out_channels (k, k) stride padding w b, g2)))"

definition nn_ConvTranspose2d ::
  "'g torch_init \<Rightarrow> nat \<Rightarrow> nat \<Rightarrow> nat \<Rightarrow> nat \<Rightarrow> nat \<Rightarrow> nat \<Rightarrow> 'g \<Rightarrow> nn_module \<times> 'g" where
  "nn_ConvTranspose2d ti in_channels out_channels k stride padding output_padding g =
     (case init_fresh ti [in_channels, out_channels, k, k] g of
        (w, g1) \<Rightarrow>
          (case init_fresh ti [out_channels] g1 of
             (b, g2) \<Rightarrow>
               (ConvTranspose2d in_channels out_channels (k, k) stride padding output_padding w b,
                g2)))"

text \<open>Running a list of constructors in order, as a Python list display does.\<close>

fun build :: "('g \<Rightarrow> 'a \<times> 'g) list \<Rightarrow> 'g \<Rightarrow> 'a list \<times> 'g" where
  "build [] g = ([], g)"
| "build (c # cs) g =
     (case c g of
        (m, g1) \<Rightarrow> (case build cs g1 of (ms, g2) \<Rightarrow> (m # ms, g2)))"

text \<open>\<^verbatim>\<open>nn.Module.apply(fn)\<close>: \<open>fn\<close> on every submodule, children first, then on the
  module itself. \<open>fn\<close> changes the module in place; here it returns the module it
  leaves.\<close>

type_synonym 'g init_fn = "nn_module \<Rightarrow> 'g \<Rightarrow> (error + nn_module) \<times> 'g"

fun module_apply :: "'g init_fn \<Rightarrow> nn_module \<Rightarrow> 'g \<Rightarrow> (error + nn_module) \<times> 'g"
  and modules_apply :: "'g init_fn \<Rightarrow> nn_module list \<Rightarrow> 'g \<Rightarrow> (error + nn_module list) \<times> 'g"
  where
  "module_apply fn (Sequential ms) g =
     (case modules_apply fn ms g of
        (Inl e, g1) \<Rightarrow> (Inl e, g1)
      | (Inr ms', g1) \<Rightarrow> fn (Sequential ms') g1)"
| "module_apply fn (Linear i o' w b) g = fn (Linear i o' w b) g"
| "module_apply fn (Conv2d i o' k s p w b) g = fn (Conv2d i o' k s p w b) g"
| "module_apply fn (ConvTranspose2d i o' k s p op w b) g = fn (ConvTranspose2d i o' k s p op w b) g"
| "module_apply fn (LeakyReLU a) g = fn (LeakyReLU a) g"
| "module_apply fn ReLU g = fn ReLU g"
| "modules_apply fn [] g = (Inr [], g)"
| "modules_apply fn (m # ms) g =
     (case module_apply fn m g of
        (Inl e, g1) \<Rightarrow> (Inl e, g1)
      | (Inr m', g1) \<Rightarrow>
          (case modules_apply fn ms g1 of
             (Inl e, g2) \<Rightarrow> (Inl e, g2)
           | (Inr ms', g2) \<Rightarrow> (Inr (m' # ms'), g2)))"

section \<open>What \<^verbatim>\<open>base.py\<close> provides\<close>

text \<open>\<^verbatim>\<open>latent.py\<close> imports \<^verbatim>\<open>create_linear_network\<close>, \<^verbatim>\<open>weights_init_xavier\<close> and
  \<^verbatim>\<open>tie_weights\<close> from \<^verbatim>\<open>base.py\<close>, which is not among the sources. They are
  parameters of the model. \<open>create_linear_network\<close> takes the input size, the output
  size, the hidden sizes, the hidden activation and the initialiser.\<close>

record 'g base =
  create_linear_network ::
    "nat \<Rightarrow> nat \<Rightarrow> nat list \<Rightarrow> nn_module \<Rightarrow> 'g init_fn \<Rightarrow> 'g \<Rightarrow> (error + nn_module) \<times> 'g"
  weights_init_xavier :: "'g init_fn"
  tie_weights :: "nn_module \<Rightarrow> nn_module \<Rightarrow> nn_module"


definition out_features :: "forward_fn \<Rightarrow> nn_module \<Rightarrow> nat \<Rightarrow> bool" where
  "out_features call m k \<longleftrightarrow>
     (\<forall>v y m'. call m v = (Inr y, m') \<longrightarrow> shape y \<noteq> [] \<and> last (shape y) = k)"

section \<open>The module \<^verbatim>\<open>latent.py\<close>\<close>

subsection \<open>\<^verbatim>\<open>weight_init\<close>\<close>

text \<open>The convolution branch of \<^verbatim>\<open>weight_init\<close>, on a weight of sizes
  \<open>[a, b, kh, kw]\<close>: the assertion on the kernel, the weight filled with zeros, and
  an orthogonal sample of sizes \<open>[a, b]\<close> written at the centre of the kernel, that is
  into \<^verbatim>\<open>weight[:, :, mid, mid]\<close>. The gain of \<^verbatim>\<open>relu\<close> is \<open>\<surd>2\<close>.\<close>

definition delta_orthogonal ::
  "'g torch_init \<Rightarrow> nat \<Rightarrow> nat \<Rightarrow> nat \<Rightarrow> nat \<Rightarrow> 'g \<Rightarrow> (error + real list) \<times> 'g" where
  "delta_orthogonal ti a b kh kw g =
     (if kh \<noteq> kw then (Inl AssertionError, g)
      else
        let mid = kh div 2
        in if kh \<le> mid then (Inl IndexError, g)
           else
             (case init_orthogonal ti [a, b] (sqrt 2) g of
                (vals, g1) \<Rightarrow>
                  (Inr (concat (map (\<lambda>v. (replicate (kh * kw) 0)[mid * kw + mid := v]) vals)),
                   g1)))"

fun weight_init :: "'g torch_init \<Rightarrow> nn_module \<Rightarrow> 'g \<Rightarrow> (error + nn_module) \<times> 'g" where
  "weight_init ti (Linear i o' w b) g =
     (case init_orthogonal ti [o', i] 1 g of
        (w', g1) \<Rightarrow> (Inr (Linear i o' w' (replicate o' 0)), g1))"
| "weight_init ti (Conv2d i o' (kh, kw) s p w b) g =
     (case delta_orthogonal ti o' i kh kw g of
        (Inl e, g1) \<Rightarrow> (Inl e, g1)
      | (Inr w', g1) \<Rightarrow> (Inr (Conv2d i o' (kh, kw) s p w' (replicate o' 0)), g1))"
| "weight_init ti (ConvTranspose2d i o' (kh, kw) s p op w b) g =
     (case delta_orthogonal ti i o' kh kw g of
        (Inl e, g1) \<Rightarrow> (Inl e, g1)
      | (Inr w', g1) \<Rightarrow> (Inr (ConvTranspose2d i o' (kh, kw) s p op w' (replicate o' 0)), g1))"
| "weight_init ti (LeakyReLU a) g = (Inr (LeakyReLU a), g)"
| "weight_init ti ReLU g = (Inr ReLU, g)"
| "weight_init ti (Sequential ms) g = (Inr (Sequential ms), g)"

subsection \<open>\<^verbatim>\<open>Gaussian\<close>\<close>

text \<open>\<open>std\<close> is \<^verbatim>\<open>None\<close> or a number.\<close>

record Gaussian =
  Gaussian_net :: nn_module
  Gaussian_std :: "real option"

definition Gaussian_init ::
  "'g base \<Rightarrow> nat \<Rightarrow> nat \<Rightarrow> nat list \<Rightarrow> real option \<Rightarrow> real \<Rightarrow> 'g \<Rightarrow> (error + Gaussian) \<times> 'g"
  where
  "Gaussian_init base input_dim output_dim hidden_units std leaky_slope g =
     (case create_linear_network base input_dim
             (if std = None then 2 * output_dim else output_dim)
             hidden_units (LeakyReLU leaky_slope) (weights_init_xavier base) g of
        (Inl e, g1) \<Rightarrow> (Inl e, g1)
      | (Inr n, g1) \<Rightarrow> (Inr \<lparr>Gaussian_net = n, Gaussian_std = std\<rparr>, g1))"

text \<open>The truth value Python gives \<^verbatim>\<open>self.std\<close> in \<^verbatim>\<open>if self.std:\<close>: false for
  \<^verbatim>\<open>None\<close> and for zero.\<close>

definition truthy :: "real option \<Rightarrow> bool" where
  "truthy v = (case v of None \<Rightarrow> False | Some r \<Rightarrow> r \<noteq> 0)"

text \<open>Unpacking a sequence into two names.\<close>

fun unpack2 :: "'a list \<Rightarrow> error + 'a \<times> 'a" where
  "unpack2 [a, b] = Inr (a, b)"
| "unpack2 _ = Inl ValueError"

text \<open>\<^verbatim>\<open>if isinstance(x, list) or isinstance(x, tuple): x = torch.cat(x, dim=-1)\<close>\<close>

fun Gaussian_input :: "pyval \<Rightarrow> error + pyval" where
  "Gaussian_input (PyList ts) = map_sum id PyTensor (cat ts)"
| "Gaussian_input (PyTuple ts) = map_sum id PyTensor (cat ts)"
| "Gaussian_input (PyTensor t) = Inr (PyTensor t)"

definition Gaussian_forward ::
  "forward_fn \<Rightarrow> Gaussian \<Rightarrow> pyval \<Rightarrow> (error + normal) \<times> Gaussian" where
  "Gaussian_forward call self x =
     (case Gaussian_input x of
        Inl e \<Rightarrow> (Inl e, self)
      | Inr x1 \<Rightarrow>
          (case call (Gaussian_net self) x1 of
             (Inl e, n1) \<Rightarrow> (Inl e, self\<lparr>Gaussian_net := n1\<rparr>)
           | (Inr y, n1) \<Rightarrow>
               (if truthy (Gaussian_std self)
                then (Normal y (mul_scalar (ones_like y) (the (Gaussian_std self))),
                      self\<lparr>Gaussian_net := n1\<rparr>)
                else
                  (case chunk y 2 of
                     Inl e \<Rightarrow> (Inl e, self\<lparr>Gaussian_net := n1\<rparr>)
                   | Inr cs \<Rightarrow>
                       (case unpack2 cs of
                          Inl e \<Rightarrow> (Inl e, self\<lparr>Gaussian_net := n1\<rparr>)
                        | Inr (mean, std) \<Rightarrow>
                            (Normal mean (add_scalar (softplus std) (1 / 100000)),
                             self\<lparr>Gaussian_net := n1\<rparr>))))))"

subsection \<open>\<^verbatim>\<open>ConstantGaussian\<close>\<close>

record ConstantGaussian =
  ConstantGaussian_output_dim :: nat
  ConstantGaussian_std :: real

definition ConstantGaussian_init :: "nat \<Rightarrow> real \<Rightarrow> ConstantGaussian" where
  "ConstantGaussian_init output_dim std =
     \<lparr>ConstantGaussian_output_dim = output_dim, ConstantGaussian_std = std\<rparr>"

definition ConstantGaussian_forward ::
  "ConstantGaussian \<Rightarrow> tensor \<Rightarrow> (error + normal) \<times> ConstantGaussian" where
  "ConstantGaussian_forward self x =
     (case size_at x 0 of
        Inl e \<Rightarrow> (Inl e, self)
      | Inr n \<Rightarrow>
          (let mean = to_like (zeros [n, ConstantGaussian_output_dim self]) x;
               std = mul_scalar (to_like (ones [n, ConstantGaussian_output_dim self]) x)
                       (ConstantGaussian_std self)
           in (Normal mean std, self)))"

subsection \<open>The loop over the convolutions\<close>

text \<open>Both \<^verbatim>\<open>Decoder.forward\<close> and \<^verbatim>\<open>Encoder.forward\<close> run
  \<^verbatim>\<open>for i in range(n): x = F.leaky_relu(layers[i](x), negative_slope=leaky_slope)\<close>
  over a module list. The list is indexed as Python does, and each call leaves its
  layer in the list.\<close>

fun conv_loop ::
  "forward_fn \<Rightarrow> real \<Rightarrow> nat list \<Rightarrow> nn_module list \<Rightarrow> tensor \<Rightarrow> (error + tensor) \<times> nn_module list"
  where
  "conv_loop call slope [] ms x = (Inr x, ms)"
| "conv_loop call slope (i # is) ms x =
     (if i < length ms then
        (case call (ms ! i) (PyTensor x) of
           (Inl e, m1) \<Rightarrow> (Inl e, ms[i := m1])
         | (Inr y, m1) \<Rightarrow> conv_loop call slope is (ms[i := m1]) (leaky_relu y slope))
      else (Inl IndexError, ms))"

subsection \<open>\<^verbatim>\<open>Decoder\<close>\<close>

record Decoder =
  Decoder_std :: real
  Decoder_leaky_slope :: real
  Decoder_convts :: "nn_module list"

definition Decoder_layers :: "'g torch_init \<Rightarrow> nat \<Rightarrow> nat \<Rightarrow> ('g \<Rightarrow> nn_module \<times> 'g) list" where
  "Decoder_layers ti input_dim output_dim =
     [nn_ConvTranspose2d ti input_dim 64 27 1 0 0,
      nn_ConvTranspose2d ti 64 64 3 1 1 0,
      nn_ConvTranspose2d ti 64 64 3 2 1 1,
      nn_ConvTranspose2d ti 64 32 3 1 1 0,
      nn_ConvTranspose2d ti 32 32 3 2 1 1,
      nn_ConvTranspose2d ti 32 32 5 2 2 1,
      nn_Conv2d ti 32 64 3 1 1,
      nn_Conv2d ti 64 64 3 1 1,
      nn_Conv2d ti 64 output_dim 3 1 1]"

text \<open>\<^verbatim>\<open>self.apply(weight_init)\<close> visits the nine layers, then the module list and the
  decoder itself, on which \<^verbatim>\<open>weight_init\<close> does nothing. \<open>bot_dim\<close> is not used.\<close>

definition Decoder_init ::
  "'g torch_init \<Rightarrow> nat \<Rightarrow> nat \<Rightarrow> real \<Rightarrow> real \<Rightarrow> nat \<Rightarrow> 'g \<Rightarrow> (error + Decoder) \<times> 'g" where
  "Decoder_init ti input_dim output_dim std leaky_slope bot_dim g =
     (case build (Decoder_layers ti input_dim output_dim) g of
        (convts, g1) \<Rightarrow>
          (case modules_apply (weight_init ti) convts g1 of
             (Inl e, g2) \<Rightarrow> (Inl e, g2)
           | (Inr convts', g2) \<Rightarrow>
               (Inr \<lparr>Decoder_std = std, Decoder_leaky_slope = leaky_slope,
                     Decoder_convts = convts'\<rparr>, g2)))"

definition Decoder_forward ::
  "forward_fn \<Rightarrow> Decoder \<Rightarrow> tensor \<Rightarrow> (error + normal) \<times> Decoder" where
  "Decoder_forward call self latent =
     (case unpack2 (shape latent) of
        Inl e \<Rightarrow> (Inl e, self)
      | Inr (num_batches, latent_dim) \<Rightarrow>
          (case view latent [num_batches, latent_dim, 1, 1] of
             Inl e \<Rightarrow> (Inl e, self)
           | Inr latent1 \<Rightarrow>
               (case conv_loop call (Decoder_leaky_slope self) [0..<8] (Decoder_convts self) latent1 of
                  (Inl e, ms) \<Rightarrow> (Inl e, self\<lparr>Decoder_convts := ms\<rparr>)
                | (Inr latent2, ms) \<Rightarrow>
                    (if 8 < length ms then
                       (case call (ms ! 8) (PyTensor latent2) of
                          (Inl e, m1) \<Rightarrow> (Inl e, self\<lparr>Decoder_convts := ms[8 := m1]\<rparr>)
                        | (Inr y, m1) \<Rightarrow>
                            (let recon = tanh_tensor y
                             in (Normal recon (mul_scalar (ones_like recon) (Decoder_std self)),
                                 self\<lparr>Decoder_convts := ms[8 := m1]\<rparr>)))
                     else (Inl IndexError, self\<lparr>Decoder_convts := ms\<rparr>)))))"

subsection \<open>\<^verbatim>\<open>Encoder\<close>\<close>

record Encoder =
  Encoder_convs :: "nn_module list"
  Encoder_leaky_slope :: real
  Encoder_gau :: Gaussian

definition Encoder_layers :: "'g torch_init \<Rightarrow> nat \<Rightarrow> ('g \<Rightarrow> nn_module \<times> 'g) list" where
  "Encoder_layers ti input_dim =
     [nn_Conv2d ti input_dim 32 5 2 2,
      nn_Conv2d ti 32 32 3 2 1,
      nn_Conv2d ti 32 64 3 1 1,
      nn_Conv2d ti 64 64 3 2 1,
      nn_Conv2d ti 64 64 3 1 1,
      nn_Conv2d ti 64 64 1 1 0]"

text \<open>\<^verbatim>\<open>self.apply(weight_init)\<close> visits the six convolutions, then the network of
  the Gaussian head and its layers, and the containers, on which \<^verbatim>\<open>weight_init\<close>
  does nothing.\<close>

definition Encoder_init ::
  "'g torch_init \<Rightarrow> 'g base \<Rightarrow> nat \<Rightarrow> nat \<Rightarrow> nat list \<Rightarrow> real \<Rightarrow> 'g \<Rightarrow> (error + Encoder) \<times> 'g"
  where
  "Encoder_init ti base input_dim latent_dim hidden_units leaky_slope g =
     (case build (Encoder_layers ti input_dim) g of
        (convs, g1) \<Rightarrow>
          (case Gaussian_init base (27 * 27 * 64) latent_dim hidden_units None leaky_slope g1 of
             (Inl e, g2) \<Rightarrow> (Inl e, g2)
           | (Inr gau, g2) \<Rightarrow>
               (case modules_apply (weight_init ti) convs g2 of
                  (Inl e, g3) \<Rightarrow> (Inl e, g3)
                | (Inr convs', g3) \<Rightarrow>
                    (case module_apply (weight_init ti) (Gaussian_net gau) g3 of
                       (Inl e, g4) \<Rightarrow> (Inl e, g4)
                     | (Inr n, g4) \<Rightarrow>
                         (Inr \<lparr>Encoder_convs = convs', Encoder_leaky_slope = leaky_slope,
                               Encoder_gau = gau\<lparr>Gaussian_net := n\<rparr>\<rparr>, g4)))))"

text \<open>Unpacking \<^verbatim>\<open>x.size()\<close> into four names.\<close>

fun unpack4 :: "'a list \<Rightarrow> error + 'a \<times> 'a \<times> 'a \<times> 'a" where
  "unpack4 [a, b, c, d] = Inr (a, b, c, d)"
| "unpack4 _ = Inl ValueError"

definition Encoder_forward ::
  "forward_fn \<Rightarrow> Encoder \<Rightarrow> tensor \<Rightarrow> (error + tensor \<times> normal) \<times> Encoder" where
  "Encoder_forward call self x =
     (case unpack4 (shape x) of
        Inl e \<Rightarrow> (Inl e, self)
      | Inr (num_batches, C, H, W) \<Rightarrow>
          (case conv_loop call (Encoder_leaky_slope self) [0..<6] (Encoder_convs self) x of
             (Inl e, ms) \<Rightarrow> (Inl e, self\<lparr>Encoder_convs := ms\<rparr>)
           | (Inr x1, ms) \<Rightarrow>
               (case view_infer x1 num_batches of
                  Inl e \<Rightarrow> (Inl e, self\<lparr>Encoder_convs := ms\<rparr>)
                | Inr x2 \<Rightarrow>
                    (case Gaussian_forward call (Encoder_gau self) (PyTensor x2) of
                       (Inl e, gau1) \<Rightarrow> (Inl e, self\<lparr>Encoder_convs := ms, Encoder_gau := gau1\<rparr>)
                     | (Inr dist1, gau1) \<Rightarrow>
                         (Inr (loc dist1, dist1),
                          self\<lparr>Encoder_convs := ms, Encoder_gau := gau1\<rparr>)))))"

subsection \<open>\<^verbatim>\<open>LatentNetwork\<close>\<close>

record LatentNetwork =
  LatentNetwork_encoder :: Encoder
  LatentNetwork_decoder :: Decoder

definition LatentNetwork_init ::
  "'g torch_init \<Rightarrow> 'g base \<Rightarrow> nat \<Rightarrow> nat \<Rightarrow> real \<Rightarrow> nat list \<Rightarrow> 'g \<Rightarrow> (error + LatentNetwork) \<times> 'g"
  where
  "LatentNetwork_init ti base observation_shape latent_dim leaky_slope hidden_units g =
     (case Encoder_init ti base observation_shape latent_dim hidden_units leaky_slope g of
        (Inl e, g1) \<Rightarrow> (Inl e, g1)
      | (Inr enc, g1) \<Rightarrow>
          (case Decoder_init ti latent_dim observation_shape (sqrt (1 / 10)) leaky_slope 10 g1 of
             (Inl e, g2) \<Rightarrow> (Inl e, g2)
           | (Inr dec, g2) \<Rightarrow>
               (Inr \<lparr>LatentNetwork_encoder = enc, LatentNetwork_decoder = dec\<rparr>, g2)))"

subsection \<open>\<^verbatim>\<open>TaskNetwork\<close>\<close>

record TaskNetwork =
  TaskNetwork_net :: nn_module

definition TaskNetwork_init ::
  "'g base \<Rightarrow> nat \<Rightarrow> nat \<Rightarrow> nat list \<Rightarrow> 'g init_fn \<Rightarrow> 'g \<Rightarrow> (error + TaskNetwork) \<times> 'g" where
  "TaskNetwork_init base input_dim output_dim hidden_units initializer g =
     (case create_linear_network base input_dim (output_dim * 2) hidden_units ReLU initializer g of
        (Inl e, g1) \<Rightarrow> (Inl e, g1)
      | (Inr n, g1) \<Rightarrow> (Inr \<lparr>TaskNetwork_net = n\<rparr>, g1))"

text \<open>\<^verbatim>\<open>if isinstance(x, list): x = torch.cat(x, dim=-1)\<close>: only a list is
  concatenated; a tuple goes to the network as it is.\<close>

fun TaskNetwork_input :: "pyval \<Rightarrow> error + pyval" where
  "TaskNetwork_input (PyList ts) = map_sum id PyTensor (cat ts)"
| "TaskNetwork_input (PyTuple ts) = Inr (PyTuple ts)"
| "TaskNetwork_input (PyTensor t) = Inr (PyTensor t)"

definition TaskNetwork_forward ::
  "forward_fn \<Rightarrow> TaskNetwork \<Rightarrow> pyval \<Rightarrow> (error + tensor list) \<times> TaskNetwork" where
  "TaskNetwork_forward call self x =
     (case TaskNetwork_input x of
        Inl e \<Rightarrow> (Inl e, self)
      | Inr x1 \<Rightarrow>
          (case call (TaskNetwork_net self) x1 of
             (Inl e, n1) \<Rightarrow> (Inl e, self\<lparr>TaskNetwork_net := n1\<rparr>)
           | (Inr y, n1) \<Rightarrow>
               (case chunk y 2 of
                  Inl e \<Rightarrow> (Inl e, self\<lparr>TaskNetwork_net := n1\<rparr>)
                | Inr cs \<Rightarrow>
                    (case unpack2 cs of
                       Inl e \<Rightarrow> (Inl e, self\<lparr>TaskNetwork_net := n1\<rparr>)
                     | Inr (gamma, bias) \<Rightarrow>
                         (Inr [gamma, bias], self\<lparr>TaskNetwork_net := n1\<rparr>)))))"

definition copy_conv_weights_from :: "'g base \<Rightarrow> TaskNetwork \<Rightarrow> TaskNetwork \<Rightarrow> TaskNetwork" where
  "copy_conv_weights_from base self source =
     self\<lparr>TaskNetwork_net := tie_weights base (TaskNetwork_net source) (TaskNetwork_net self)\<rparr>"

section \<open>Predicates used in the statements\<close>


definition create_sizes_output :: "forward_fn \<Rightarrow> 'g base \<Rightarrow> bool" where
  "create_sizes_output call base \<longleftrightarrow>
     (\<forall>i k hs act ini g m g1.
        create_linear_network base i k hs act ini g = (Inr m, g1) \<longrightarrow> out_features call m k)"




section \<open>An instance of the library, for the examples\<close>

text \<open>The examples below run the module on a small instance of the library: a
  linear layer computes \<open>x W\<^sup>T + b\<close> on the last dimension, an activation works
  entrywise, a sequential container chains its layers, and a convolution, plain or
  transposed, with one input channel, one output channel, a 1 by 1 kernel of weight
  \<open>w\<close>, stride 1, no padding and bias \<open>b\<close> maps every entry \<open>v\<close> of a four-dimensional
  input with one channel to \<open>w * v + b\<close>. Other convolutions are not in the instance.\<close>

definition linear_forward :: "nat \<Rightarrow> nat \<Rightarrow> real list \<Rightarrow> real list \<Rightarrow> tensor \<Rightarrow> tensor" where
  "linear_forward i o' w b t =
     \<lparr>shape = butlast (shape t) @ [o'],
      data = concat (map (\<lambda>row. map (\<lambda>j. sum_list (map2 (*) (take i (drop (j * i) w)) row) + b ! j)
                                    [0..<o'])
                      (rows t))\<rparr>"

fun example_call :: forward_fn
  and example_seq :: "nn_module list \<Rightarrow> pyval \<Rightarrow> (error + tensor) \<times> nn_module list" where
  "example_call (Linear i o' w b) v =
     (case v of
        PyTensor t \<Rightarrow>
          (if shape t \<noteq> [] \<and> last (shape t) = i \<and> length w = o' * i \<and> length b = o'
           then (Inr (linear_forward i o' w b t), Linear i o' w b)
           else (Inl RuntimeError, Linear i o' w b))
      | _ \<Rightarrow> (Inl TypeError, Linear i o' w b))"
| "example_call (Conv2d i o' k s p w b) v =
     (case v of
        PyTensor t \<Rightarrow>
          (if i = 1 \<and> o' = 1 \<and> k = (1, 1) \<and> s = 1 \<and> p = 0 \<and> length w = 1 \<and> length b = 1
              \<and> length (shape t) = 4 \<and> shape t ! 1 = 1
           then (Inr (map_tensor (\<lambda>v. hd w * v + hd b) t), Conv2d i o' k s p w b)
           else (Inl RuntimeError, Conv2d i o' k s p w b))
      | _ \<Rightarrow> (Inl TypeError, Conv2d i o' k s p w b))"
| "example_call (ConvTranspose2d i o' k s p op w b) v =
     (case v of
        PyTensor t \<Rightarrow>
          (if i = 1 \<and> o' = 1 \<and> k = (1, 1) \<and> s = 1 \<and> p = 0 \<and> op = 0
              \<and> length w = 1 \<and> length b = 1
              \<and> length (shape t) = 4 \<and> shape t ! 1 = 1
           then (Inr (map_tensor (\<lambda>v. hd w * v + hd b) t), ConvTranspose2d i o' k s p op w b)
           else (Inl RuntimeError, ConvTranspose2d i o' k s p op w b))
      | _ \<Rightarrow> (Inl TypeError, ConvTranspose2d i o' k s p op w b))"
| "example_call (LeakyReLU a) v =
     (case v of
        PyTensor t \<Rightarrow> (Inr (leaky_relu t a), LeakyReLU a)
      | _ \<Rightarrow> (Inl TypeError, LeakyReLU a))"
| "example_call ReLU v =
     (case v of
        PyTensor t \<Rightarrow> (Inr (leaky_relu t 0), ReLU)
      | _ \<Rightarrow> (Inl TypeError, ReLU))"
| "example_call (Sequential ms) v =
     (case example_seq ms v of (r, ms') \<Rightarrow> (r, Sequential ms'))"
| "example_seq [] v =
     (case v of PyTensor t \<Rightarrow> (Inr t, []) | _ \<Rightarrow> (Inl TypeError, []))"
| "example_seq (m # ms) v =
     (case example_call m v of
        (Inl e, m') \<Rightarrow> (Inl e, m' # ms)
      | (Inr y, m') \<Rightarrow> (case example_seq ms (PyTensor y) of (r, ms') \<Rightarrow> (r, m' # ms')))"

definition pointwise_conv :: "real \<Rightarrow> real \<Rightarrow> nn_module" where
  "pointwise_conv w b = Conv2d 1 1 (1, 1) 1 0 [w] [b]"

definition pointwise_convt :: "real \<Rightarrow> real \<Rightarrow> nn_module" where
  "pointwise_convt w b = ConvTranspose2d 1 1 (1, 1) 1 0 0 [w] [b]"

text \<open>An instance of \<^verbatim>\<open>base.py\<close>: linear layers with every weight 1 and every bias 0,
  the activation between them; the initialiser does nothing, and tying returns the
  target.\<close>

fun example_layers :: "nat \<Rightarrow> nat list \<Rightarrow> nat \<Rightarrow> nn_module \<Rightarrow> nn_module list" where
  "example_layers units [] output_dim act =
     [Linear units output_dim (replicate (output_dim * units) 1) (replicate output_dim 0)]"
| "example_layers units (h # hs) output_dim act =
     Linear units h (replicate (h * units) 1) (replicate h 0) # act # example_layers h hs output_dim act"

definition example_base :: "unit base" where
  "example_base =
     \<lparr>create_linear_network =
        (\<lambda>input_dim output_dim hidden_units act ini g.
           (Inr (Sequential (example_layers input_dim hidden_units output_dim act)), g)),
      weights_init_xavier = (\<lambda>m g. (Inr m, g)),
      tie_weights = (\<lambda>src trg. trg)\<rparr>"


definition example_encoder :: Encoder where
  "example_encoder =
     \<lparr>Encoder_convs =
        [pointwise_conv 2 0, pointwise_conv 1 1, pointwise_conv 1 0,
         pointwise_conv (- 1) 0, pointwise_conv 1 0, pointwise_conv 1 2],
      Encoder_leaky_slope = 1 / 2,
      Encoder_gau = \<lparr>Gaussian_net = Linear 2 2 [1, 0, 0, 1] [0, 0], Gaussian_std = None\<rparr>\<rparr>"

definition example_image :: tensor where
  "example_image = \<lparr>shape = [1, 1, 1, 2], data = [1, - 1]\<rparr>"

definition example_decoder :: Decoder where
  "example_decoder =
     \<lparr>Decoder_std = 1 / 2, Decoder_leaky_slope = 1 / 2,
      Decoder_convts =
        [pointwise_convt 1 0, pointwise_convt 2 0, pointwise_convt 1 1,
         pointwise_convt 1 0, pointwise_convt (- 1) 0, pointwise_convt 1 0,
         pointwise_conv 1 0, pointwise_conv 2 1, pointwise_conv 1 (- 1)]\<rparr>"

definition example_latent :: tensor where
  "example_latent = \<lparr>shape = [2, 1], data = [3, - 5]\<rparr>"

section \<open>Auxiliary facts\<close>

lemma set_expand_data: "set (expand_data a b xs) \<subseteq> set xs"
proof (induction a b xs rule: expand_data.induct)
  case (1 d ds e es xs)
  have blk: "set (concat (map (\<lambda>i. expand_data ds es (take (prod_list ds) (drop (i * prod_list ds) xs))) [0..<d])) \<subseteq> set xs"
  proof
    fix v assume "v \<in> set (concat (map (\<lambda>i. expand_data ds es (take (prod_list ds) (drop (i * prod_list ds) xs))) [0..<d]))"
    then obtain i where i: "i < d" and v: "v \<in> set (expand_data ds es (take (prod_list ds) (drop (i * prod_list ds) xs)))"
      by auto
    from 1[OF refl, of i] i v have "v \<in> set (take (prod_list ds) (drop (i * prod_list ds) xs))"
      by auto
    then show "v \<in> set xs" by (meson in_set_dropD in_set_takeD)
  qed
  show ?case using blk by (auto simp: Let_def)
qed simp_all

lemma concat_blocks: "length xs = d * m \<Longrightarrow> concat (map (\<lambda>i. take m (drop (i * m) xs)) [0..<d]) = xs"
proof (induction d arbitrary: xs)
  case 0 then show ?case by simp
next
  case (Suc d)
  have "concat (map (\<lambda>i. take m (drop (i * m) xs)) [0..<d]) = take (d * m) xs"
  proof -
    have "concat (map (\<lambda>i. take m (drop (i * m) (take (d*m) xs))) [0..<d]) = take (d * m) xs"
      using Suc.IH[of "take (d*m) xs"] Suc.prems by simp
    moreover have "\<And>i. i < d \<Longrightarrow> take m (drop (i * m) (take (d*m) xs)) = take m (drop (i * m) xs)"
    proof -
      fix i assume "i < d"
      then have "i * m + m \<le> d * m"
        by (metis Suc_leI mult_Suc mult_le_mono1 add.commute)
      then show "take m (drop (i * m) (take (d*m) xs)) = take m (drop (i * m) xs)"
        by (simp add: drop_take min_def)
    qed
    then have "map (\<lambda>i. take m (drop (i * m) (take (d*m) xs))) [0..<d] = map (\<lambda>i. take m (drop (i * m) xs)) [0..<d]"
      by (intro map_cong refl) simp
    ultimately show ?thesis by simp
  qed
  then show ?case using Suc.prems by (simp add: take_add[symmetric])
qed

lemma expand_data_same: "length xs = prod_list s \<Longrightarrow> expand_data s s xs = xs"
proof (induction s arbitrary: xs)
  case Nil then show ?case by simp
next
  case (Cons d ds)
  have "\<And>i. i < d \<Longrightarrow> expand_data ds ds (take (prod_list ds) (drop (i * prod_list ds) xs)) = take (prod_list ds) (drop (i * prod_list ds) xs)"
  proof -
    fix i assume "i < d"
    then have "i * prod_list ds + prod_list ds \<le> d * prod_list ds"
      by (metis Suc_leI mult_Suc mult_le_mono1 add.commute)
    then have "length (take (prod_list ds) (drop (i * prod_list ds) xs)) = prod_list ds"
      using Cons.prems by simp
    then show "expand_data ds ds (take (prod_list ds) (drop (i * prod_list ds) xs)) = take (prod_list ds) (drop (i * prod_list ds) xs)"
      by (rule Cons.IH)
  qed
  then have "map (\<lambda>i. expand_data ds ds (take (prod_list ds) (drop (i * prod_list ds) xs))) [0..<d]
     = map (\<lambda>i. take (prod_list ds) (drop (i * prod_list ds) xs)) [0..<d]"
    by (intro map_cong refl) simp
  then have "concat (map (\<lambda>i. expand_data ds ds (take (prod_list ds) (drop (i * prod_list ds) xs))) [0..<d])
     = concat (map (\<lambda>i. take (prod_list ds) (drop (i * prod_list ds) xs)) [0..<d])"
    by (rule arg_cong)
  also have "\<dots> = xs" using Cons.prems by (simp add: concat_blocks)
  finally show ?case by (simp add: Let_def)
qed

lemma broadcast_shapes_same: "broadcast_shapes s s = Inr s"
  by (simp add: broadcast_shapes_def pad_shape_def Let_def list_all2_same map2_map_map zip_same_conv_map comp_def)

lemma expand_same: "wf_tensor t \<Longrightarrow> expand t (shape t) = t"
  by (simp add: expand_def pad_shape_def wf_tensor_def expand_data_same)

lemma Normal_same_shape:
  "wf_tensor l \<Longrightarrow> wf_tensor s \<Longrightarrow> shape s = shape l \<Longrightarrow> list_all (\<lambda>v. 0 < v) (data s)
   \<Longrightarrow> Normal l s = Inr \<lparr>loc = l, scale = s\<rparr>"
  using expand_same[of l] expand_same[of s] by (simp add: Normal_def broadcast_shapes_same)

lemma Normal_wf_same:
  "wf_tensor l \<Longrightarrow> wf_tensor s \<Longrightarrow> shape s = shape l
   \<Longrightarrow> Normal l s = (if list_all (\<lambda>v. 0 < v) (data s) then Inr \<lparr>loc = l, scale = s\<rparr> else Inl ValueError)"
  using expand_same[of l] expand_same[of s] by (simp add: Normal_def broadcast_shapes_same)

lemma Normal_same_shape_Inr:
  "Normal l s = Inr d \<Longrightarrow> wf_tensor l \<Longrightarrow> wf_tensor s \<Longrightarrow> shape s = shape l
   \<Longrightarrow> d = \<lparr>loc = l, scale = s\<rparr>"
  using expand_same[of l] expand_same[of s]
  by (auto simp: Normal_def broadcast_shapes_same split: if_splits)


lemma in_expand_data: "v \<in> set (expand_data a b xs) \<Longrightarrow> v \<in> set xs"
  using set_expand_data by blast

lemma Normal_entries:
  assumes "Normal l s = Inr d"
  shows "set (data (loc d)) \<subseteq> set (data l)" and "set (data (scale d)) \<subseteq> set (data s)"
    and "shape (scale d) = shape (loc d)"
  using assms
  by (auto simp: Normal_def expand_def split: sum.splits if_splits dest: in_expand_data)

lemma Normal_shape_same:
  "Normal l s = Inr d \<Longrightarrow> shape s = shape l \<Longrightarrow> shape (loc d) = shape l"
  by (auto simp: Normal_def expand_def broadcast_shapes_same split: sum.splits if_splits)

lemma wf_full: "wf_tensor (full shp v)"
  by (simp add: wf_tensor_def full_def)

lemma chunk_even:
  assumes "shape y \<noteq> []" and "last (shape y) = 2 * k"
  shows "chunk y 2 = Inr [narrow_last y 0 k, narrow_last y k k]"
proof (cases "k = 0")
  case True
  with assms show ?thesis by (simp add: chunk_def numeral_2_eq_2)
next
  case False
  have a: "(2 * k + 2 - 1) div 2 = k" by simp
  have e: "2 * k + k - 1 = (k - 1) + 2 * k" using False by simp
  have "((k - 1) + 2 * k) div k = (k - 1) div k + 2"
    using False div_mult_self1[of k "k - 1" 2] by (simp add: mult.commute)
  moreover have "(k - 1) div k = 0" using False by simp
  ultimately have b: "(2 * k + k - 1) div k = 2" using e by simp
  have c: "[0..<2] = [0, Suc 0]" by (simp add: upt_rec numeral_2_eq_2)
  show ?thesis using assms False a b c
    by (simp add: chunk_def Let_def)
qed

lemma unpack2_Inr: "unpack2 xs = Inr (a, b) \<longleftrightarrow> xs = [a, b]"
  by (cases xs rule: unpack2.cases) auto

lemma unpack4_Inr: "unpack4 xs = Inr (a, b, c, d) \<longleftrightarrow> xs = [a, b, c, d]"
  by (cases xs rule: unpack4.cases) auto

lemma tanh_tensor_entries: "v \<in> set (data (tanh_tensor y)) \<Longrightarrow> -1 \<le> v \<and> v \<le> 1"
proof -
  assume "v \<in> set (data (tanh_tensor y))"
  then obtain u where "v = tanh u" by (auto simp: tanh_tensor_def map_tensor_def)
  moreover have "-1 < tanh u" "tanh u < 1" by (rule tanh_real_gt_neg1, rule tanh_real_lt_1)
  ultimately show ?thesis by simp
qed

lemma const_scale_entries: "v \<in> set (data (mul_scalar (ones_like y) c)) \<Longrightarrow> v = c"
  by (auto simp: mul_scalar_def map_tensor_def ones_like_def ones_def full_def)

lemma const_scale_full: "mul_scalar (ones_like y) c = full (shape y) c"
  by (simp add: mul_scalar_def map_tensor_def ones_like_def ones_def full_def)

lemma softplus1_pos: "0 < softplus1 v"
proof (cases "v > 20")
  case True then show ?thesis by (simp add: softplus1_def)
next
  case False
  have "1 < 1 + exp v" by simp
  then have "0 < ln (1 + exp v)" by (rule ln_gt_zero)
  with False show ?thesis by (simp add: softplus1_def)
qed

lemma softplus_scale_entries: "v \<in> set (data (add_scalar (softplus y) (1 / 100000))) \<Longrightarrow> 0 < v"
proof -
  assume "v \<in> set (data (add_scalar (softplus y) (1 / 100000)))"
  then obtain u where "v = softplus1 u + 1 / 100000"
    by (auto simp: add_scalar_def softplus_def map_tensor_def)
  then show ?thesis using softplus1_pos[of u] by simp
qed

lemma Decoder_forward_InrE:
  assumes "Decoder_forward call self latent = (Inr d, self')"
  obtains nb ld latent1 latent2 ms y m1 where
    "shape latent = [nb, ld]"
    "view latent [nb, ld, 1, 1] = Inr latent1"
    "conv_loop call (Decoder_leaky_slope self) [0..<8] (Decoder_convts self) latent1 = (Inr latent2, ms)"
    "8 < length ms"
    "call (ms ! 8) (PyTensor latent2) = (Inr y, m1)"
    "Normal (tanh_tensor y) (mul_scalar (ones_like (tanh_tensor y)) (Decoder_std self)) = Inr d"
    "self' = self\<lparr>Decoder_convts := ms[8 := m1]\<rparr>"
  using assms unfolding Decoder_forward_def
  by (auto simp: Let_def unpack2_Inr split: sum.splits prod.splits if_splits)

lemma Gaussian_forward_InrE:
  assumes "Gaussian_forward call self x = (Inr d, self')"
  obtains x1 y n1 where
    "Gaussian_input x = Inr x1"
    "call (Gaussian_net self) x1 = (Inr y, n1)"
    "self' = self\<lparr>Gaussian_net := n1\<rparr>"
    "truthy (Gaussian_std self) \<longrightarrow> Normal y (mul_scalar (ones_like y) (the (Gaussian_std self))) = Inr d"
    "\<not> truthy (Gaussian_std self) \<longrightarrow>
       (\<exists>mean std. chunk y 2 = Inr [mean, std] \<and> Normal mean (add_scalar (softplus std) (1 / 100000)) = Inr d)"
  using assms unfolding Gaussian_forward_def
  by (auto simp: Let_def unpack2_Inr split: sum.splits prod.splits if_splits)














lemma upt_small: "[0..<2] = [0, 1]" "[0..<6] = [0, 1, 2, 3, 4, 5]" "[0..<8] = [0, 1, 2, 3, 4, 5, 6, 7]"
  by (simp_all add: upt_rec)

lemma conv_loop_keeps:
  "\<forall>m v. snd (call m v) = m \<Longrightarrow> snd (conv_loop call slope is ms x) = ms"
proof (induction "is" arbitrary: ms x)
  case Nil then show ?case by simp
next
  case (Cons i "is")
  show ?case
  proof (cases "i < length ms")
    case False then show ?thesis by simp
  next
    case True
    obtain r m1 where c: "call (ms ! i) (PyTensor x) = (r, m1)" by (cases "call (ms ! i) (PyTensor x)")
    with Cons.prems have m1: "m1 = ms ! i" by (metis snd_conv)
    then have upd: "ms[i := m1] = ms" by simp
    show ?thesis using True c upd Cons.IH[OF Cons.prems] by (cases r) simp_all
  qed
qed

lemma Gaussian_forward_keeps:
  assumes "\<forall>m v. snd (call m v) = m"
  shows "snd (Gaussian_forward call self x) = self"
proof (cases "Gaussian_input x")
  case (Inl e) then show ?thesis by (simp add: Gaussian_forward_def)
next
  case (Inr x1)
  obtain r n1 where c: "call (Gaussian_net self) x1 = (r, n1)" by (cases "call (Gaussian_net self) x1")
  with assms have "n1 = Gaussian_net self" by (metis snd_conv)
  with Inr c show ?thesis
    by (cases r) (simp_all add: Gaussian_forward_def split: sum.splits prod.splits)
qed

lemma TaskNetwork_forward_keeps:
  assumes "\<forall>m v. snd (call m v) = m"
  shows "snd (TaskNetwork_forward call self x) = self"
proof (cases "TaskNetwork_input x")
  case (Inl e) then show ?thesis by (simp add: TaskNetwork_forward_def)
next
  case (Inr x1)
  obtain r n1 where c: "call (TaskNetwork_net self) x1 = (r, n1)" by (cases "call (TaskNetwork_net self) x1")
  with assms have "n1 = TaskNetwork_net self" by (metis snd_conv)
  with Inr c show ?thesis
    by (cases r) (simp_all add: TaskNetwork_forward_def split: sum.splits prod.splits)
qed

lemma Decoder_forward_keeps:
  assumes "\<forall>m v. snd (call m v) = m"
  shows "snd (Decoder_forward call self latent) = self"
proof (cases "unpack2 (shape latent)")
  case (Inl e) then show ?thesis by (simp add: Decoder_forward_def)
next
  case (Inr p)
  obtain nb ld where p: "p = (nb, ld)" by (cases p)
  show ?thesis
  proof (cases "view latent [nb, ld, 1, 1]")
    case (Inl e) with Inr p show ?thesis by (simp add: Decoder_forward_def)
  next
    case v: (Inr latent1)
    obtain r ms where l: "conv_loop call (Decoder_leaky_slope self) [0..<8] (Decoder_convts self) latent1 = (r, ms)"
      by (cases "conv_loop call (Decoder_leaky_slope self) [0..<8] (Decoder_convts self) latent1")
    with conv_loop_keeps[OF assms, of "Decoder_leaky_slope self" "[0..<8]" "Decoder_convts self" latent1]
    have ms: "ms = Decoder_convts self" by simp
    show ?thesis
    proof (cases r)
      case (Inl e) with Inr p v l ms show ?thesis by (simp add: Decoder_forward_def)
    next
      case r: (Inr latent2)
      obtain r2 m1 where c: "call (ms ! 8) (PyTensor latent2) = (r2, m1)" by (cases "call (ms ! 8) (PyTensor latent2)")
      with assms have "m1 = ms ! 8" by (metis snd_conv)
      then have "ms[8 := m1] = ms" by simp
      with Inr p v l ms r c show ?thesis
        by (cases r2) (simp_all add: Decoder_forward_def Let_def)
    qed
  qed
qed

lemma Encoder_forward_keeps:
  assumes "\<forall>m v. snd (call m v) = m"
  shows "snd (Encoder_forward call self x) = self"
proof (cases "unpack4 (shape x)")
  case (Inl e) then show ?thesis by (simp add: Encoder_forward_def)
next
  case (Inr p)
  obtain nb C H W where p: "p = (nb, C, H, W)" by (cases p)
  obtain r ms where l: "conv_loop call (Encoder_leaky_slope self) [0..<6] (Encoder_convs self) x = (r, ms)"
    by (cases "conv_loop call (Encoder_leaky_slope self) [0..<6] (Encoder_convs self) x")
  with conv_loop_keeps[OF assms, of "Encoder_leaky_slope self" "[0..<6]" "Encoder_convs self" x]
  have ms: "ms = Encoder_convs self" by simp
  show ?thesis
  proof (cases r)
    case (Inl e) with Inr p l ms show ?thesis by (simp add: Encoder_forward_def)
  next
    case r: (Inr x1)
    show ?thesis
    proof (cases "view_infer x1 nb")
      case (Inl e) with Inr p l ms r show ?thesis by (simp add: Encoder_forward_def)
    next
      case v: (Inr x2)
      obtain r2 gau1 where g: "Gaussian_forward call (Encoder_gau self) (PyTensor x2) = (r2, gau1)"
        by (cases "Gaussian_forward call (Encoder_gau self) (PyTensor x2)")
      with Gaussian_forward_keeps[OF assms, of "Encoder_gau self" "PyTensor x2"]
      have "gau1 = Encoder_gau self" by simp
      with Inr p l ms r v g show ?thesis
        by (cases r2) (simp_all add: Encoder_forward_def)
    qed
  qed
qed

lemma conv_loop_Cons_Inr:
  "conv_loop call s (i # is) ms x = (Inr z, ms') \<longleftrightarrow>
     i < length ms \<and> (\<exists>y m1. call (ms ! i) (PyTensor x) = (Inr y, m1)
        \<and> conv_loop call s is (ms[i := m1]) (leaky_relu y s) = (Inr z, ms'))"
  by (auto split: prod.splits sum.splits)

lemma upt_6: "[0..<6] = [0, 1, 2, 3, 4, 5]"
  by (simp add: upt_rec)

lemma upt_8: "[0..<8] = [0, 1, 2, 3, 4, 5, 6, 7]"
  by (simp add: upt_rec)

lemma conv_loop6_Inr:
  assumes "conv_loop call s [0..<6] ms x = (Inr z, ms')"
  obtains y0 m0 y1 m1 y2 m2 y3 m3 y4 m4 y5 m5 where
    "6 \<le> length ms"
    "call (ms ! 0) (PyTensor x) = (Inr y0, m0)"
    "call (ms ! 1) (PyTensor (leaky_relu y0 s)) = (Inr y1, m1)"
    "call (ms ! 2) (PyTensor (leaky_relu y1 s)) = (Inr y2, m2)"
    "call (ms ! 3) (PyTensor (leaky_relu y2 s)) = (Inr y3, m3)"
    "call (ms ! 4) (PyTensor (leaky_relu y3 s)) = (Inr y4, m4)"
    "call (ms ! 5) (PyTensor (leaky_relu y4 s)) = (Inr y5, m5)"
    "z = leaky_relu y5 s"
    "ms' = ms[0 := m0, 1 := m1, 2 := m2, 3 := m3, 4 := m4, 5 := m5]"
proof -
  from assms obtain y0 m0 where c0: "call (ms ! 0) (PyTensor x) = (Inr y0, m0)"
    and l0: "conv_loop call s [1, 2, 3, 4, 5] (ms[0 := m0]) (leaky_relu y0 s) = (Inr z, ms')"
    unfolding upt_6 conv_loop_Cons_Inr by blast
  from l0 obtain y1 m1 where c1: "call (ms ! 1) (PyTensor (leaky_relu y0 s)) = (Inr y1, m1)"
    and l1: "conv_loop call s [2, 3, 4, 5] (ms[0 := m0, 1 := m1]) (leaky_relu y1 s) = (Inr z, ms')"
    unfolding conv_loop_Cons_Inr by auto
  from l1 obtain y2 m2 where c2: "call (ms ! 2) (PyTensor (leaky_relu y1 s)) = (Inr y2, m2)"
    and l2: "conv_loop call s [3, 4, 5] (ms[0 := m0, 1 := m1, 2 := m2]) (leaky_relu y2 s) = (Inr z, ms')"
    unfolding conv_loop_Cons_Inr by auto
  from l2 obtain y3 m3 where c3: "call (ms ! 3) (PyTensor (leaky_relu y2 s)) = (Inr y3, m3)"
    and l3: "conv_loop call s [4, 5] (ms[0 := m0, 1 := m1, 2 := m2, 3 := m3]) (leaky_relu y3 s) = (Inr z, ms')"
    unfolding conv_loop_Cons_Inr by auto
  from l3 obtain y4 m4 where c4: "call (ms ! 4) (PyTensor (leaky_relu y3 s)) = (Inr y4, m4)"
    and l4: "conv_loop call s [5] (ms[0 := m0, 1 := m1, 2 := m2, 3 := m3, 4 := m4]) (leaky_relu y4 s) = (Inr z, ms')"
    unfolding conv_loop_Cons_Inr by auto
  from l4 obtain y5 m5 where c5: "call (ms ! 5) (PyTensor (leaky_relu y4 s)) = (Inr y5, m5)"
    and l5: "conv_loop call s [] (ms[0 := m0, 1 := m1, 2 := m2, 3 := m3, 4 := m4, 5 := m5]) (leaky_relu y5 s) = (Inr z, ms')"
    and n: "5 < length ms"
    unfolding conv_loop_Cons_Inr by auto
  from l5 have "z = leaky_relu y5 s" "ms' = ms[0 := m0, 1 := m1, 2 := m2, 3 := m3, 4 := m4, 5 := m5]"
    by simp_all
  moreover from n have "6 \<le> length ms" by simp
  ultimately show ?thesis using c0 c1 c2 c3 c4 c5 that by blast
qed

lemma conv_loop8_Inr:
  assumes "conv_loop call s [0..<8] ms x = (Inr z, ms')"
  obtains y0 m0 y1 m1 y2 m2 y3 m3 y4 m4 y5 m5 y6 m6 y7 m7 where
    "8 \<le> length ms"
    "call (ms ! 0) (PyTensor x) = (Inr y0, m0)"
    "call (ms ! 1) (PyTensor (leaky_relu y0 s)) = (Inr y1, m1)"
    "call (ms ! 2) (PyTensor (leaky_relu y1 s)) = (Inr y2, m2)"
    "call (ms ! 3) (PyTensor (leaky_relu y2 s)) = (Inr y3, m3)"
    "call (ms ! 4) (PyTensor (leaky_relu y3 s)) = (Inr y4, m4)"
    "call (ms ! 5) (PyTensor (leaky_relu y4 s)) = (Inr y5, m5)"
    "call (ms ! 6) (PyTensor (leaky_relu y5 s)) = (Inr y6, m6)"
    "call (ms ! 7) (PyTensor (leaky_relu y6 s)) = (Inr y7, m7)"
    "z = leaky_relu y7 s"
    "ms' = ms[0 := m0, 1 := m1, 2 := m2, 3 := m3, 4 := m4, 5 := m5, 6 := m6, 7 := m7]"
proof -
  from assms obtain y0 m0 where c0: "call (ms ! 0) (PyTensor x) = (Inr y0, m0)"
    and l0: "conv_loop call s [1, 2, 3, 4, 5, 6, 7] (ms[0 := m0]) (leaky_relu y0 s) = (Inr z, ms')"
    unfolding upt_8 conv_loop_Cons_Inr by blast
  from l0 obtain y1 m1 where c1: "call (ms ! 1) (PyTensor (leaky_relu y0 s)) = (Inr y1, m1)"
    and l1: "conv_loop call s [2, 3, 4, 5, 6, 7] (ms[0 := m0, 1 := m1]) (leaky_relu y1 s) = (Inr z, ms')"
    unfolding conv_loop_Cons_Inr by auto
  from l1 obtain y2 m2 where c2: "call (ms ! 2) (PyTensor (leaky_relu y1 s)) = (Inr y2, m2)"
    and l2: "conv_loop call s [3, 4, 5, 6, 7] (ms[0 := m0, 1 := m1, 2 := m2]) (leaky_relu y2 s) = (Inr z, ms')"
    unfolding conv_loop_Cons_Inr by auto
  from l2 obtain y3 m3 where c3: "call (ms ! 3) (PyTensor (leaky_relu y2 s)) = (Inr y3, m3)"
    and l3: "conv_loop call s [4, 5, 6, 7] (ms[0 := m0, 1 := m1, 2 := m2, 3 := m3]) (leaky_relu y3 s) = (Inr z, ms')"
    unfolding conv_loop_Cons_Inr by auto
  from l3 obtain y4 m4 where c4: "call (ms ! 4) (PyTensor (leaky_relu y3 s)) = (Inr y4, m4)"
    and l4: "conv_loop call s [5, 6, 7] (ms[0 := m0, 1 := m1, 2 := m2, 3 := m3, 4 := m4]) (leaky_relu y4 s) = (Inr z, ms')"
    unfolding conv_loop_Cons_Inr by auto
  from l4 obtain y5 m5 where c5: "call (ms ! 5) (PyTensor (leaky_relu y4 s)) = (Inr y5, m5)"
    and l5: "conv_loop call s [6, 7] (ms[0 := m0, 1 := m1, 2 := m2, 3 := m3, 4 := m4, 5 := m5]) (leaky_relu y5 s) = (Inr z, ms')"
    unfolding conv_loop_Cons_Inr by auto
  from l5 obtain y6 m6 where c6: "call (ms ! 6) (PyTensor (leaky_relu y5 s)) = (Inr y6, m6)"
    and l6: "conv_loop call s [7] (ms[0 := m0, 1 := m1, 2 := m2, 3 := m3, 4 := m4, 5 := m5, 6 := m6]) (leaky_relu y6 s) = (Inr z, ms')"
    unfolding conv_loop_Cons_Inr by auto
  from l6 obtain y7 m7 where c7: "call (ms ! 7) (PyTensor (leaky_relu y6 s)) = (Inr y7, m7)"
    and l7: "conv_loop call s [] (ms[0 := m0, 1 := m1, 2 := m2, 3 := m3, 4 := m4, 5 := m5, 6 := m6, 7 := m7]) (leaky_relu y7 s) = (Inr z, ms')"
    and n: "7 < length ms"
    unfolding conv_loop_Cons_Inr by auto
  from l7 have "z = leaky_relu y7 s"
    "ms' = ms[0 := m0, 1 := m1, 2 := m2, 3 := m3, 4 := m4, 5 := m5, 6 := m6, 7 := m7]"
    by simp_all
  moreover from n have "8 \<le> length ms" by simp
  ultimately show ?thesis using c0 c1 c2 c3 c4 c5 c6 c7 that by blast
qed

lemma Encoder_forward_InrE:
  assumes "Encoder_forward call self x = (Inr (m, d), self')"
  obtains num_batches C H W x1 ms x2 gau1 where
    "shape x = [num_batches, C, H, W]"
    "conv_loop call (Encoder_leaky_slope self) [0..<6] (Encoder_convs self) x = (Inr x1, ms)"
    "view_infer x1 num_batches = Inr x2"
    "Gaussian_forward call (Encoder_gau self) (PyTensor x2) = (Inr d, gau1)"
    "m = loc d"
    "self' = self\<lparr>Encoder_convs := ms, Encoder_gau := gau1\<rparr>"
  using assms unfolding Encoder_forward_def
  by (auto simp: unpack4_Inr split: sum.splits prod.splits)

lemma TaskNetwork_surj: "(self' :: TaskNetwork) = (self :: TaskNetwork)\<lparr>TaskNetwork_net := TaskNetwork_net self'\<rparr>"
  by (cases self, cases self') simp

lemma chunk_two_shapes:
  assumes "chunk y 2 = Inr [mean, std]"
  shows "shape y \<noteq> []"
    and "shape mean = butlast (shape y) @ [(last (shape y) + 1) div 2]"
    and "shape std = butlast (shape y) @ [last (shape y) - (last (shape y) + 1) div 2]"
    and "last (shape y) \<noteq> 1"
proof -
  define D where "D = last (shape y)"
  define s where "s = (D + 2 - 1) div 2"
  define num where "num = max ((D + s - 1) div s) 1"
  from assms show ne: "shape y \<noteq> []" by (auto simp: chunk_def split: if_splits)
  have s2: "s = (D + 1) div 2" by (simp add: s_def)
  show "shape mean = butlast (shape y) @ [(last (shape y) + 1) div 2]"
    and "shape std = butlast (shape y) @ [last (shape y) - (last (shape y) + 1) div 2]"
    and "last (shape y) \<noteq> 1"
  proof (atomize (full), cases "D = 0")
    case True
    then have "s = 0" by (simp add: s_def)
    with True assms ne have "[mean, std] = replicate 2 (narrow_last y 0 0)"
      by (simp add: chunk_def D_def s_def)
    then have "mean = narrow_last y 0 0" "std = narrow_last y 0 0" by (simp_all add: numeral_2_eq_2)
    with True show "shape mean = butlast (shape y) @ [(last (shape y) + 1) div 2]
      \<and> shape std = butlast (shape y) @ [last (shape y) - (last (shape y) + 1) div 2]
      \<and> last (shape y) \<noteq> 1"
      by (simp add: narrow_last_def D_def)
  next
    case False
    then have spos: "s \<noteq> 0" using s2 by arith
    from False assms ne have m: "map (\<lambda>j. narrow_last y (j * s) (if j = num - 1 then s - (s * num - D) else s)) [0..<num]
        = [mean, std]"
      unfolding chunk_def num_def s_def D_def by (simp add: Let_def cong: if_cong)
    then have "length [mean, std] = num" by (metis length_map length_upt minus_nat.diff_0)
    then have n2: "num = 2" by simp
    from m n2 have mm: "mean = narrow_last y 0 s" and ss: "std = narrow_last y s (s - (s * 2 - D))"
      by (simp_all add: upt_small)
    have "D \<noteq> 1"
    proof
      assume "D = 1"
      then have "s = 1" by (simp add: s_def)
      with \<open>D = 1\<close> have "num = 1" by (simp add: num_def)
      with n2 show False by simp
    qed
    moreover have "s - (s * 2 - D) = D - s" using s2 by arith
    ultimately show "shape mean = butlast (shape y) @ [(last (shape y) + 1) div 2]
      \<and> shape std = butlast (shape y) @ [last (shape y) - (last (shape y) + 1) div 2]
      \<and> last (shape y) \<noteq> 1"
      using mm ss s2 by (simp add: narrow_last_def D_def)
  qed
qed

lemma broadcast_shapes_last:
  assumes "broadcast_shapes (l @ [a]) (l @ [b]) = Inr sh"
  shows "(a = b \<or> a = 1 \<or> b = 1) \<and> sh \<noteq> [] \<and> last sh = (if a = 1 then b else a)"
  using assms
  by (auto simp: broadcast_shapes_def pad_shape_def Let_def list_all2_append split: if_splits)


















section \<open>The examples, evaluated\<close>



lemma example_cat:
  "cat [\<lparr>shape = [2, 1], data = [1, 2]\<rparr>, \<lparr>shape = [2, 2], data = [3, 4, 5, 6]\<rparr>]
   = Inr \<lparr>shape = [2, 3], data = [1, 3, 4, 2, 5, 6]\<rparr>"
  by (simp add: cat_def should_skip_def rows_def upt_small)

lemma example_call_keeps:
  "snd (example_call m v) = m"
  "snd (example_seq ms v) = ms"
  by (induction m v and ms v rule: example_call_example_seq.induct)
     (auto split: pyval.splits prod.splits sum.splits)

lemma example_conv_loop6:
  "conv_loop example_call (1 / 2) [0..<6]
     [pointwise_conv 2 0, pointwise_conv 1 1, pointwise_conv 1 0,
      pointwise_conv (- 1) 0, pointwise_conv 1 0, pointwise_conv 1 2]
     \<lparr>shape = [1, 1, 1, 2], data = [1, - 1]\<rparr>
   = (Inr \<lparr>shape = [1, 1, 1, 2], data = [5 / 4, 2]\<rparr>,
      [pointwise_conv 2 0, pointwise_conv 1 1, pointwise_conv 1 0,
       pointwise_conv (- 1) 0, pointwise_conv 1 0, pointwise_conv 1 2])"
  by (simp add: upt_6 pointwise_conv_def leaky_relu_def map_tensor_def numeral_eq_Suc)

lemma example_chunk2:
  "chunk \<lparr>shape = [1, 2], data = [a, b]\<rparr> 2
   = Inr [\<lparr>shape = [1, 1], data = [a]\<rparr>, \<lparr>shape = [1, 1], data = [b]\<rparr>]"
  by (simp add: chunk_def Let_def narrow_last_def rows_def upt_small)

lemma example_Normal11:
  "0 < b \<Longrightarrow> Normal \<lparr>shape = [1, 1], data = [a]\<rparr> \<lparr>shape = [1, 1], data = [b]\<rparr>
   = Inr \<lparr>loc = \<lparr>shape = [1, 1], data = [a]\<rparr>, scale = \<lparr>shape = [1, 1], data = [b]\<rparr>\<rparr>"
  by (rule Normal_same_shape) (simp_all add: wf_tensor_def)

lemma example_linear22:
  "example_call (Linear 2 2 [1, 0, 0, 1] [0, 0]) (PyTensor \<lparr>shape = [1, 2], data = [a, b]\<rparr>)
   = (Inr \<lparr>shape = [1, 2], data = [a, b]\<rparr>, Linear 2 2 [1, 0, 0, 1] [0, 0])"
  by (simp add: linear_forward_def rows_def upt_small)

lemma example_head:
  "Gaussian_forward example_call \<lparr>Gaussian_net = Linear 2 2 [1, 0, 0, 1] [0, 0], Gaussian_std = None\<rparr>
     (PyTensor \<lparr>shape = [1, 2], data = [a, b]\<rparr>)
   = (Inr \<lparr>loc = \<lparr>shape = [1, 1], data = [a]\<rparr>,
           scale = \<lparr>shape = [1, 1], data = [softplus1 b + 1 / 100000]\<rparr>\<rparr>,
      \<lparr>Gaussian_net = Linear 2 2 [1, 0, 0, 1] [0, 0], Gaussian_std = None\<rparr>)"
proof -
  have s: "add_scalar (softplus \<lparr>shape = [1, 1], data = [b]\<rparr>) (1 / 100000)
           = \<lparr>shape = [1, 1], data = [softplus1 b + 1 / 100000]\<rparr>"
    by (simp add: softplus_def add_scalar_def map_tensor_def)
  have p: "0 < softplus1 b + 1 / 100000" using softplus1_pos[of b] by simp
  show ?thesis
    unfolding Gaussian_forward_def
    by (simp add: example_linear22 truthy_def example_chunk2 s example_Normal11[OF p]
        del: example_call.simps One_nat_def)
qed

lemma example_encoder_forward:
  "Encoder_forward example_call example_encoder example_image
   = (Inr (\<lparr>shape = [1, 1], data = [5 / 4]\<rparr>,
           \<lparr>loc = \<lparr>shape = [1, 1], data = [5 / 4]\<rparr>,
            scale = \<lparr>shape = [1, 1], data = [softplus1 2 + 1 / 100000]\<rparr>\<rparr>),
      example_encoder)"
proof -
  have v: "view_infer \<lparr>shape = [1, 1, 1, 2], data = [5 / 4, 2]\<rparr> 1
           = Inr \<lparr>shape = [1, 2], data = [5 / 4, 2]\<rparr>"
    by (simp add: view_infer_def numel_def)
  show ?thesis
    unfolding Encoder_forward_def example_encoder_def example_image_def
    by (simp add: example_conv_loop6 v example_head del: One_nat_def)
qed

lemma example_conv_loop8:
  "conv_loop example_call (1 / 2) [0..<8]
     [pointwise_convt 1 0, pointwise_convt 2 0, pointwise_convt 1 1,
      pointwise_convt 1 0, pointwise_convt (- 1) 0, pointwise_convt 1 0,
      pointwise_conv 1 0, pointwise_conv 2 1, pointwise_conv 1 (- 1)]
     \<lparr>shape = [2, 1, 1, 1], data = [3, - 5]\<rparr>
   = (Inr \<lparr>shape = [2, 1, 1, 1], data = [- (3 / 8), 7 / 4]\<rparr>,
      [pointwise_convt 1 0, pointwise_convt 2 0, pointwise_convt 1 1,
       pointwise_convt 1 0, pointwise_convt (- 1) 0, pointwise_convt 1 0,
       pointwise_conv 1 0, pointwise_conv 2 1, pointwise_conv 1 (- 1)])"
  by (simp add: upt_8 pointwise_conv_def pointwise_convt_def leaky_relu_def map_tensor_def numeral_eq_Suc)

lemma example_decoder_forward:
  "Decoder_forward example_call example_decoder example_latent
   = (Inr \<lparr>loc = \<lparr>shape = [2, 1, 1, 1], data = [tanh (- (11 / 8)), tanh (3 / 4)]\<rparr>,
           scale = \<lparr>shape = [2, 1, 1, 1], data = [1 / 2, 1 / 2]\<rparr>\<rparr>,
      example_decoder)"
proof -
  have n: "Normal \<lparr>shape = [2, 1, 1, 1], data = [tanh (- (11 / 8)), tanh (3 / 4)]\<rparr>
             \<lparr>shape = [2, 1, 1, 1], data = [1 / 2, 1 / 2]\<rparr>
           = Inr \<lparr>loc = \<lparr>shape = [2, 1, 1, 1], data = [tanh (- (11 / 8)), tanh (3 / 4)]\<rparr>,
                  scale = \<lparr>shape = [2, 1, 1, 1], data = [1 / 2, 1 / 2]\<rparr>\<rparr>"
    by (rule Normal_same_shape) (simp_all add: wf_tensor_def)
  have c: "example_call (pointwise_conv 1 (- 1)) (PyTensor \<lparr>shape = [2, 1, 1, 1], data = [- (3 / 8), 7 / 4]\<rparr>)
           = (Inr \<lparr>shape = [2, 1, 1, 1], data = [- (11 / 8), 3 / 4]\<rparr>, pointwise_conv 1 (- 1))"
    by (simp add: pointwise_conv_def map_tensor_def)
  have o: "mul_scalar (ones_like \<lparr>shape = [2, 1, 1, 1], data = [tanh (- (11 / 8)), tanh (3 / 4)]\<rparr>) (1 / 2)
           = \<lparr>shape = [2, 1, 1, 1], data = [1 / 2, 1 / 2]\<rparr>"
    by (simp add: const_scale_full full_def numeral_2_eq_2)
  have t: "tanh_tensor \<lparr>shape = [2, 1, 1, 1], data = [- (11 / 8), 3 / 4]\<rparr>
           = \<lparr>shape = [2, 1, 1, 1], data = [tanh (- (11 / 8)), tanh (3 / 4)]\<rparr>"
    by (simp add: tanh_tensor_def map_tensor_def)
  have v: "view \<lparr>shape = [2, 1], data = [3, - 5]\<rparr> [2, 1, 1, 1] = Inr \<lparr>shape = [2, 1, 1, 1], data = [3, - 5]\<rparr>"
    by (simp add: view_def numel_def)
  show ?thesis
    unfolding Decoder_forward_def example_decoder_def example_latent_def
    by (simp add: v example_conv_loop8 c t o n del: tanh_real_neg_iff tanh_minus One_nat_def) simp
qed


lemma example_seq_layers:
  "example_seq (example_layers u hs k act) v = (Inr y, ms') \<Longrightarrow> shape y \<noteq> [] \<and> last (shape y) = k"
proof (induction hs arbitrary: u v ms')
  case Nil
  then show ?case
    by (auto simp: linear_forward_def split: pyval.splits if_splits prod.splits sum.splits)
next
  case (Cons h hs)
  from Cons.prems obtain y1 m1 y2 m2 ms2 where
    "example_seq (example_layers h hs k act) (PyTensor y2) = (Inr y, ms2)"
    by (auto split: pyval.splits if_splits prod.splits sum.splits)
  then show ?case by (rule Cons.IH)
qed

lemma example_base_sizes: "create_sizes_output example_call example_base"
  unfolding create_sizes_output_def out_features_def example_base_def
  by (auto split: prod.splits dest: example_seq_layers)

lemma example_task_forward:
  "TaskNetwork_forward example_call \<lparr>TaskNetwork_net = Sequential [Linear 2 2 [1, 1, 1, 1] [0, 0]]\<rparr>
     (PyTensor \<lparr>shape = [1, 2], data = [3, 4]\<rparr>)
   = (Inr [\<lparr>shape = [1, 1], data = [7]\<rparr>, \<lparr>shape = [1, 1], data = [7]\<rparr>],
      \<lparr>TaskNetwork_net = Sequential [Linear 2 2 [1, 1, 1, 1] [0, 0]]\<rparr>)"
proof -
  have c: "example_call (Sequential [Linear 2 2 [1, 1, 1, 1] [0, 0]]) (PyTensor \<lparr>shape = [1, 2], data = [3, 4]\<rparr>)
      = (Inr \<lparr>shape = [1, 2], data = [7, 7]\<rparr>, Sequential [Linear 2 2 [1, 1, 1, 1] [0, 0]])"
    by (simp add: linear_forward_def rows_def upt_small)
  show ?thesis
    unfolding TaskNetwork_forward_def
    by (simp add: c example_chunk2 del: example_call.simps One_nat_def)
qed

lemma example_task_init:
  "TaskNetwork_init example_base 2 1 [] (weights_init_xavier example_base) ()
   = (Inr \<lparr>TaskNetwork_net = Sequential [Linear 2 2 [1, 1, 1, 1] [0, 0]]\<rparr>, ())"
  by (simp add: TaskNetwork_init_def example_base_def numeral_eq_Suc)

lemma example_zero_std_init:
  "Gaussian_init example_base 1 3 [] (Some 0) (1 / 5) ()
   = (Inr \<lparr>Gaussian_net = Sequential [Linear 1 3 [1, 1, 1] [0, 0, 0]], Gaussian_std = Some 0\<rparr>, ())"
  by (simp add: Gaussian_init_def example_base_def numeral_eq_Suc)

lemma example_zero_std_forward:
  "Gaussian_forward example_call
     \<lparr>Gaussian_net = Sequential [Linear 1 3 [1, 1, 1] [0, 0, 0]], Gaussian_std = Some 0\<rparr>
     (PyTensor \<lparr>shape = [1, 1], data = [2]\<rparr>)
   = (Inr \<lparr>loc = \<lparr>shape = [1, 2], data = [2, 2]\<rparr>,
           scale = \<lparr>shape = [1, 2], data = [softplus1 2 + 1 / 100000, softplus1 2 + 1 / 100000]\<rparr>\<rparr>,
      \<lparr>Gaussian_net = Sequential [Linear 1 3 [1, 1, 1] [0, 0, 0]], Gaussian_std = Some 0\<rparr>)"
proof -
  have u: "[0..<3] = [0, 1, 2]" by (simp add: upt_rec)
  have c: "example_call (Sequential [Linear 1 3 [1, 1, 1] [0, 0, 0]]) (PyTensor \<lparr>shape = [1, 1], data = [2]\<rparr>)
      = (Inr \<lparr>shape = [1, 3], data = [2, 2, 2]\<rparr>, Sequential [Linear 1 3 [1, 1, 1] [0, 0, 0]])"
    by (simp add: linear_forward_def rows_def u)
  have k: "chunk \<lparr>shape = [1, 3], data = [2, 2, 2]\<rparr> 2
      = Inr [\<lparr>shape = [1, 2], data = [2, 2]\<rparr>, \<lparr>shape = [1, 1], data = [2]\<rparr>]"
    by (simp add: chunk_def Let_def narrow_last_def rows_def upt_small)
  have s: "add_scalar (softplus \<lparr>shape = [1, 1], data = [2]\<rparr>) (1 / 100000)
      = \<lparr>shape = [1, 1], data = [softplus1 2 + 1 / 100000]\<rparr>"
    by (simp add: softplus_def add_scalar_def map_tensor_def)
  have n: "Normal \<lparr>shape = [1, 2], data = [2, 2]\<rparr> \<lparr>shape = [1, 1], data = [softplus1 2 + 1 / 100000]\<rparr>
      = Inr \<lparr>loc = \<lparr>shape = [1, 2], data = [2, 2]\<rparr>,
             scale = \<lparr>shape = [1, 2], data = [softplus1 2 + 1 / 100000, softplus1 2 + 1 / 100000]\<rparr>\<rparr>"
    using softplus1_pos[of 2]
    by (simp add: Normal_def broadcast_shapes_def pad_shape_def Let_def expand_def upt_small upt_rec
        numeral_2_eq_2 add_pos_pos)
  show ?thesis
    unfolding Gaussian_forward_def
    by (simp add: c truthy_def k s n del: example_call.simps One_nat_def)
qed

lemma example_zero_std_even_init:
  "Gaussian_init example_base 2 2 [] (Some 0) (1 / 5) ()
   = (Inr \<lparr>Gaussian_net = Sequential [Linear 2 2 [1, 1, 1, 1] [0, 0]], Gaussian_std = Some 0\<rparr>, ())"
  by (simp add: Gaussian_init_def example_base_def numeral_eq_Suc)

lemma example_zero_std_even_forward:
  "Gaussian_forward example_call
     \<lparr>Gaussian_net = Sequential [Linear 2 2 [1, 1, 1, 1] [0, 0]], Gaussian_std = Some 0\<rparr>
     (PyTensor \<lparr>shape = [1, 2], data = [3, 4]\<rparr>)
   = (Inr \<lparr>loc = \<lparr>shape = [1, 1], data = [7]\<rparr>,
           scale = \<lparr>shape = [1, 1], data = [softplus1 7 + 1 / 100000]\<rparr>\<rparr>,
      \<lparr>Gaussian_net = Sequential [Linear 2 2 [1, 1, 1, 1] [0, 0]], Gaussian_std = Some 0\<rparr>)"
proof -
  have c: "example_call (Sequential [Linear 2 2 [1, 1, 1, 1] [0, 0]]) (PyTensor \<lparr>shape = [1, 2], data = [3, 4]\<rparr>)
      = (Inr \<lparr>shape = [1, 2], data = [7, 7]\<rparr>, Sequential [Linear 2 2 [1, 1, 1, 1] [0, 0]])"
    by (simp add: linear_forward_def rows_def upt_small)
  have s: "add_scalar (softplus \<lparr>shape = [1, 1], data = [7]\<rparr>) (1 / 100000)
      = \<lparr>shape = [1, 1], data = [softplus1 7 + 1 / 100000]\<rparr>"
    by (simp add: softplus_def add_scalar_def map_tensor_def)
  show ?thesis
    unfolding Gaussian_forward_def
    using softplus1_pos[of 7]
    by (simp add: c truthy_def example_chunk2 s example_Normal11 add_pos_pos
        del: example_call.simps One_nat_def)
qed



section \<open>The claims\<close>

subsection \<open>C1\<close>

text \<open>Claim C1. Whenever \<^verbatim>\<open>Encoder.forward\<close> returns a pair \<open>(m, d)\<close>, \<open>m\<close> is the mean of
  \<open>d\<close>, and \<open>d\<close> is the normal distribution that the Gaussian head of the encoder
  returns on the flattened convolutional features: the input has four dimensions, the
  six convolutions of the encoder are called in order, each on the leaky-rectified
  output of the one before, the last output is flattened to \<open>(num_batches, -1)\<close>, and
  the head calls its network on that and builds \<open>d\<close> from the output.\<close>

theorem Encoder_forward_mean_and_dist:
  assumes "Encoder_forward call self x = (Inr (m, d), self')"
  shows "m = loc d
     \<and> (\<exists>num_batches C H W y0 m0 y1 m1 y2 m2 y3 m3 y4 m4 y5 m5 x2 y n1.
        shape x = [num_batches, C, H, W]
        \<and> 6 \<le> length (Encoder_convs self)
        \<and> call (Encoder_convs self ! 0) (PyTensor x) = (Inr y0, m0)
        \<and> call (Encoder_convs self ! 1) (PyTensor (leaky_relu y0 (Encoder_leaky_slope self))) = (Inr y1, m1)
        \<and> call (Encoder_convs self ! 2) (PyTensor (leaky_relu y1 (Encoder_leaky_slope self))) = (Inr y2, m2)
        \<and> call (Encoder_convs self ! 3) (PyTensor (leaky_relu y2 (Encoder_leaky_slope self))) = (Inr y3, m3)
        \<and> call (Encoder_convs self ! 4) (PyTensor (leaky_relu y3 (Encoder_leaky_slope self))) = (Inr y4, m4)
        \<and> call (Encoder_convs self ! 5) (PyTensor (leaky_relu y4 (Encoder_leaky_slope self))) = (Inr y5, m5)
        \<and> view_infer (leaky_relu y5 (Encoder_leaky_slope self)) num_batches = Inr x2
        \<and> Gaussian_forward call (Encoder_gau self) (PyTensor x2) = (Inr d, Encoder_gau self')
        \<and> call (Gaussian_net (Encoder_gau self)) (PyTensor x2) = (Inr y, n1)
        \<and> (truthy (Gaussian_std (Encoder_gau self)) \<longrightarrow>
             Normal y (mul_scalar (ones_like y) (the (Gaussian_std (Encoder_gau self)))) = Inr d)
        \<and> (\<not> truthy (Gaussian_std (Encoder_gau self)) \<longrightarrow>
             (\<exists>mean std. chunk y 2 = Inr [mean, std]
                \<and> Normal mean (add_scalar (softplus std) (1 / 100000)) = Inr d))
        \<and> Encoder_convs self'
            = (Encoder_convs self)[0 := m0, 1 := m1, 2 := m2, 3 := m3, 4 := m4, 5 := m5])"
proof -
  from assms obtain num_batches C H W x1 ms x2 gau1 where
    sh: "shape x = [num_batches, C, H, W]" and
    lp: "conv_loop call (Encoder_leaky_slope self) [0..<6] (Encoder_convs self) x = (Inr x1, ms)" and
    vw: "view_infer x1 num_batches = Inr x2" and
    gf: "Gaussian_forward call (Encoder_gau self) (PyTensor x2) = (Inr d, gau1)" and
    md: "m = loc d" and
    se: "self' = self\<lparr>Encoder_convs := ms, Encoder_gau := gau1\<rparr>"
    by (rule Encoder_forward_InrE)
  from lp obtain y0 m0 y1 m1 y2 m2 y3 m3 y4 m4 y5 m5 where
    ln: "6 \<le> length (Encoder_convs self)" and
    c0: "call (Encoder_convs self ! 0) (PyTensor x) = (Inr y0, m0)" and
    c1: "call (Encoder_convs self ! 1) (PyTensor (leaky_relu y0 (Encoder_leaky_slope self))) = (Inr y1, m1)" and
    c2: "call (Encoder_convs self ! 2) (PyTensor (leaky_relu y1 (Encoder_leaky_slope self))) = (Inr y2, m2)" and
    c3: "call (Encoder_convs self ! 3) (PyTensor (leaky_relu y2 (Encoder_leaky_slope self))) = (Inr y3, m3)" and
    c4: "call (Encoder_convs self ! 4) (PyTensor (leaky_relu y3 (Encoder_leaky_slope self))) = (Inr y4, m4)" and
    c5: "call (Encoder_convs self ! 5) (PyTensor (leaky_relu y4 (Encoder_leaky_slope self))) = (Inr y5, m5)" and
    x1: "x1 = leaky_relu y5 (Encoder_leaky_slope self)" and
    ms: "ms = (Encoder_convs self)[0 := m0, 1 := m1, 2 := m2, 3 := m3, 4 := m4, 5 := m5]"
    by (rule conv_loop6_Inr)
  from gf obtain v y n1 where
    gi: "Gaussian_input (PyTensor x2) = Inr v" and
    gc: "call (Gaussian_net (Encoder_gau self)) v = (Inr y, n1)" and
    "gau1 = (Encoder_gau self)\<lparr>Gaussian_net := n1\<rparr>" and
    gt: "truthy (Gaussian_std (Encoder_gau self)) \<longrightarrow>
          Normal y (mul_scalar (ones_like y) (the (Gaussian_std (Encoder_gau self)))) = Inr d" and
    gn: "\<not> truthy (Gaussian_std (Encoder_gau self)) \<longrightarrow>
          (\<exists>mean std. chunk y 2 = Inr [mean, std]
             \<and> Normal mean (add_scalar (softplus std) (1 / 100000)) = Inr d)"
    by (rule Gaussian_forward_InrE)
  from gi have v: "v = PyTensor x2" by simp
  from se have s1: "Encoder_gau self' = gau1" and s2: "Encoder_convs self' = ms" by simp_all
  have "\<exists>num_batches C H W y0 m0 y1 m1 y2 m2 y3 m3 y4 m4 y5 m5 x2 y n1.
        shape x = [num_batches, C, H, W]
        \<and> 6 \<le> length (Encoder_convs self)
        \<and> call (Encoder_convs self ! 0) (PyTensor x) = (Inr y0, m0)
        \<and> call (Encoder_convs self ! 1) (PyTensor (leaky_relu y0 (Encoder_leaky_slope self))) = (Inr y1, m1)
        \<and> call (Encoder_convs self ! 2) (PyTensor (leaky_relu y1 (Encoder_leaky_slope self))) = (Inr y2, m2)
        \<and> call (Encoder_convs self ! 3) (PyTensor (leaky_relu y2 (Encoder_leaky_slope self))) = (Inr y3, m3)
        \<and> call (Encoder_convs self ! 4) (PyTensor (leaky_relu y3 (Encoder_leaky_slope self))) = (Inr y4, m4)
        \<and> call (Encoder_convs self ! 5) (PyTensor (leaky_relu y4 (Encoder_leaky_slope self))) = (Inr y5, m5)
        \<and> view_infer (leaky_relu y5 (Encoder_leaky_slope self)) num_batches = Inr x2
        \<and> Gaussian_forward call (Encoder_gau self) (PyTensor x2) = (Inr d, Encoder_gau self')
        \<and> call (Gaussian_net (Encoder_gau self)) (PyTensor x2) = (Inr y, n1)
        \<and> (truthy (Gaussian_std (Encoder_gau self)) \<longrightarrow>
             Normal y (mul_scalar (ones_like y) (the (Gaussian_std (Encoder_gau self)))) = Inr d)
        \<and> (\<not> truthy (Gaussian_std (Encoder_gau self)) \<longrightarrow>
             (\<exists>mean std. chunk y 2 = Inr [mean, std]
                \<and> Normal mean (add_scalar (softplus std) (1 / 100000)) = Inr d))
        \<and> Encoder_convs self'
            = (Encoder_convs self)[0 := m0, 1 := m1, 2 := m2, 3 := m3, 4 := m4, 5 := m5]"
    using sh ln c0 c1 c2 c3 c4 c5 vw[unfolded x1] gf[folded s1] gc[unfolded v] gt gn s2[unfolded ms]
    by (intro exI conjI)
  with md show ?thesis by (rule conjI)
qed

theorem Encoder_forward_mean_and_dist_witness:
  "Encoder_forward example_call example_encoder example_image
   = (Inr (\<lparr>shape = [1, 1], data = [5 / 4]\<rparr>,
           \<lparr>loc = \<lparr>shape = [1, 1], data = [5 / 4]\<rparr>,
            scale = \<lparr>shape = [1, 1], data = [softplus1 2 + 1 / 100000]\<rparr>\<rparr>),
      example_encoder)
   \<and> \<lparr>shape = [1, 1], data = [5 / 4]\<rparr>
     = loc \<lparr>loc = \<lparr>shape = [1, 1], data = [5 / 4]\<rparr>,
            scale = \<lparr>shape = [1, 1], data = [softplus1 2 + 1 / 100000]\<rparr>\<rparr>
   \<and> (\<exists>y4 y5 m5 x2.
        example_call (Encoder_convs example_encoder ! 5)
          (PyTensor (leaky_relu y4 (Encoder_leaky_slope example_encoder))) = (Inr y5, m5)
        \<and> view_infer (leaky_relu y5 (Encoder_leaky_slope example_encoder)) 1 = Inr x2
        \<and> Gaussian_forward example_call (Encoder_gau example_encoder) (PyTensor x2)
          = (Inr \<lparr>loc = \<lparr>shape = [1, 1], data = [5 / 4]\<rparr>,
                  scale = \<lparr>shape = [1, 1], data = [softplus1 2 + 1 / 100000]\<rparr>\<rparr>,
             Encoder_gau example_encoder))"
proof -
  note t = Encoder_forward_mean_and_dist[OF example_encoder_forward]
  have "shape example_image = [1, 1, 1, 2]" by (simp add: example_image_def)
  with t[THEN conjunct2] have "\<exists>y4 y5 m5 x2.
        example_call (Encoder_convs example_encoder ! 5)
          (PyTensor (leaky_relu y4 (Encoder_leaky_slope example_encoder))) = (Inr y5, m5)
        \<and> view_infer (leaky_relu y5 (Encoder_leaky_slope example_encoder)) 1 = Inr x2
        \<and> Gaussian_forward example_call (Encoder_gau example_encoder) (PyTensor x2)
          = (Inr \<lparr>loc = \<lparr>shape = [1, 1], data = [5 / 4]\<rparr>,
                  scale = \<lparr>shape = [1, 1], data = [softplus1 2 + 1 / 100000]\<rparr>\<rparr>,
             Encoder_gau example_encoder)"
    by (elim exE conjE) (simp, blast)
  with example_encoder_forward t[THEN conjunct1] show ?thesis by (intro conjI)
qed

subsection \<open>C2\<close>

text \<open>Claim C2. For a task network constructed with \<open>output_dim\<close>, whose linear network
  therefore has \<open>2 * output_dim\<close> output features, \<^verbatim>\<open>TaskNetwork.forward\<close> returns exactly
  when the network returns, and then it returns the list of the two halves of the
  network's output along the last dimension, each of last size \<open>output_dim\<close>.\<close>

theorem TaskNetwork_forward_halves:
  assumes "create_sizes_output call base"
    and "TaskNetwork_init base input_dim output_dim hidden_units initializer g = (Inr self, g1)"
  shows "TaskNetwork_forward call self x = (Inr r, self') \<longleftrightarrow>
     (\<exists>x1 y. TaskNetwork_input x = Inr x1
        \<and> call (TaskNetwork_net self) x1 = (Inr y, TaskNetwork_net self')
        \<and> shape y \<noteq> [] \<and> last (shape y) = 2 * output_dim
        \<and> r = [narrow_last y 0 output_dim, narrow_last y output_dim output_dim]
        \<and> shape (narrow_last y 0 output_dim) = butlast (shape y) @ [output_dim]
        \<and> shape (narrow_last y output_dim output_dim) = butlast (shape y) @ [output_dim])"
proof -
  from assms(2) have "create_linear_network base input_dim (output_dim * 2) hidden_units ReLU initializer g
      = (Inr (TaskNetwork_net self), g1)"
    by (auto simp: TaskNetwork_init_def split: prod.splits sum.splits)
  with assms(1) have o: "out_features call (TaskNetwork_net self) (output_dim * 2)"
    unfolding create_sizes_output_def by blast
  have halves: "chunk y 2 = Inr [narrow_last y 0 output_dim, narrow_last y output_dim output_dim]
      \<and> shape y \<noteq> [] \<and> last (shape y) = 2 * output_dim"
    if "call (TaskNetwork_net self) x1 = (Inr y, n1)" for x1 y n1
  proof -
    from o that have "shape y \<noteq> []" "last (shape y) = 2 * output_dim"
      unfolding out_features_def by (metis, metis mult.commute)
    then show ?thesis using chunk_even by simp
  qed
  have sh: "shape (narrow_last y a b) = butlast (shape y) @ [b]" for y a b
    by (simp add: narrow_last_def)
  show ?thesis
  proof
    assume l: "TaskNetwork_forward call self x = (Inr r, self')"
    then obtain x1 y n1 cs where
      a: "TaskNetwork_input x = Inr x1" "call (TaskNetwork_net self) x1 = (Inr y, n1)"
        "chunk y 2 = Inr cs" "self' = self\<lparr>TaskNetwork_net := n1\<rparr>"
        "\<exists>gamma bias. unpack2 cs = Inr (gamma, bias) \<and> r = [gamma, bias]"
      unfolding TaskNetwork_forward_def
      by (auto split: sum.splits prod.splits)
    from halves[OF a(2)] a(3) have cs: "cs = [narrow_last y 0 output_dim, narrow_last y output_dim output_dim]"
      and y: "shape y \<noteq> []" "last (shape y) = 2 * output_dim" by simp_all
    from a(5) cs have "r = [narrow_last y 0 output_dim, narrow_last y output_dim output_dim]" by auto
    moreover from a(4) have "TaskNetwork_net self' = n1" by simp
    ultimately show "\<exists>x1 y. TaskNetwork_input x = Inr x1
        \<and> call (TaskNetwork_net self) x1 = (Inr y, TaskNetwork_net self')
        \<and> shape y \<noteq> [] \<and> last (shape y) = 2 * output_dim
        \<and> r = [narrow_last y 0 output_dim, narrow_last y output_dim output_dim]
        \<and> shape (narrow_last y 0 output_dim) = butlast (shape y) @ [output_dim]
        \<and> shape (narrow_last y output_dim output_dim) = butlast (shape y) @ [output_dim]"
      using a(1,2) y sh by blast
  next
    assume "\<exists>x1 y. TaskNetwork_input x = Inr x1
        \<and> call (TaskNetwork_net self) x1 = (Inr y, TaskNetwork_net self')
        \<and> shape y \<noteq> [] \<and> last (shape y) = 2 * output_dim
        \<and> r = [narrow_last y 0 output_dim, narrow_last y output_dim output_dim]
        \<and> shape (narrow_last y 0 output_dim) = butlast (shape y) @ [output_dim]
        \<and> shape (narrow_last y output_dim output_dim) = butlast (shape y) @ [output_dim]"
    then obtain x1 y where
      a: "TaskNetwork_input x = Inr x1" "call (TaskNetwork_net self) x1 = (Inr y, TaskNetwork_net self')"
        "r = [narrow_last y 0 output_dim, narrow_last y output_dim output_dim]" by blast
    from halves[OF a(2)] have "chunk y 2 = Inr [narrow_last y 0 output_dim, narrow_last y output_dim output_dim]"
      by simp
    with a show "TaskNetwork_forward call self x = (Inr r, self')"
      using TaskNetwork_surj[of self' self]
      by (simp add: TaskNetwork_forward_def)
  qed
qed

theorem TaskNetwork_forward_halves_witness:
  "create_sizes_output example_call example_base
   \<and> TaskNetwork_init example_base 2 1 [] (weights_init_xavier example_base) ()
     = (Inr \<lparr>TaskNetwork_net = Sequential [Linear 2 2 [1, 1, 1, 1] [0, 0]]\<rparr>, ())
   \<and> TaskNetwork_forward example_call \<lparr>TaskNetwork_net = Sequential [Linear 2 2 [1, 1, 1, 1] [0, 0]]\<rparr>
       (PyTensor \<lparr>shape = [1, 2], data = [3, 4]\<rparr>)
     = (Inr [\<lparr>shape = [1, 1], data = [7]\<rparr>, \<lparr>shape = [1, 1], data = [7]\<rparr>],
        \<lparr>TaskNetwork_net = Sequential [Linear 2 2 [1, 1, 1, 1] [0, 0]]\<rparr>)
   \<and> (\<exists>y. last (shape y) = 2 * 1
        \<and> [\<lparr>shape = [1, 1], data = [7]\<rparr>, \<lparr>shape = [1, 1], data = [7]\<rparr>]
          = [narrow_last y 0 1, narrow_last y 1 1])"
  using example_base_sizes example_task_init example_task_forward
    TaskNetwork_forward_halves[OF example_base_sizes example_task_init, THEN iffD1, OF example_task_forward]
  by blast

subsection \<open>C3\<close>




subsection \<open>C4\<close>



subsection \<open>C5\<close>

text \<open>Claim C5. Whenever \<^verbatim>\<open>Decoder.forward\<close> returns a normal distribution, its mean
  lies in \<open>[-1, 1]\<close> at every position and its scale is the decoder's \<open>std\<close> at every
  position, with the sizes of the mean. The mean is the \<open>tanh\<close> of the output of the
  last convolution: the input has two dimensions and is viewed as
  \<open>(num_batches, latent_dim, 1, 1)\<close>, the first eight layers of the decoder are called
  in order, each on the leaky-rectified output of the one before, the ninth layer is
  called on the last of these, and the mean has the sizes of its output \<open>y\<close> and is
  \<open>tanh y\<close> (when the library returns a tensor with as many entries as its sizes
  say).\<close>

theorem Decoder_forward_mean_and_scale:
  assumes "Decoder_forward call self latent = (Inr d, self')"
  shows "(\<forall>v \<in> set (data (loc d)). - 1 \<le> v \<and> v \<le> 1)
       \<and> (\<forall>v \<in> set (data (scale d)). v = Decoder_std self)
       \<and> shape (scale d) = shape (loc d)
       \<and> (\<exists>num_batches latent_dim latent1 y0 m0 y1 m1 y2 m2 y3 m3 y4 m4 y5 m5 y6 m6 y7 m7 y m8.
            shape latent = [num_batches, latent_dim]
            \<and> view latent [num_batches, latent_dim, 1, 1] = Inr latent1
            \<and> 9 \<le> length (Decoder_convts self)
            \<and> call (Decoder_convts self ! 0) (PyTensor latent1) = (Inr y0, m0)
            \<and> call (Decoder_convts self ! 1) (PyTensor (leaky_relu y0 (Decoder_leaky_slope self))) = (Inr y1, m1)
            \<and> call (Decoder_convts self ! 2) (PyTensor (leaky_relu y1 (Decoder_leaky_slope self))) = (Inr y2, m2)
            \<and> call (Decoder_convts self ! 3) (PyTensor (leaky_relu y2 (Decoder_leaky_slope self))) = (Inr y3, m3)
            \<and> call (Decoder_convts self ! 4) (PyTensor (leaky_relu y3 (Decoder_leaky_slope self))) = (Inr y4, m4)
            \<and> call (Decoder_convts self ! 5) (PyTensor (leaky_relu y4 (Decoder_leaky_slope self))) = (Inr y5, m5)
            \<and> call (Decoder_convts self ! 6) (PyTensor (leaky_relu y5 (Decoder_leaky_slope self))) = (Inr y6, m6)
            \<and> call (Decoder_convts self ! 7) (PyTensor (leaky_relu y6 (Decoder_leaky_slope self))) = (Inr y7, m7)
            \<and> call (Decoder_convts self ! 8) (PyTensor (leaky_relu y7 (Decoder_leaky_slope self))) = (Inr y, m8)
            \<and> Normal (tanh_tensor y) (mul_scalar (ones_like (tanh_tensor y)) (Decoder_std self)) = Inr d
            \<and> shape (loc d) = shape y
            \<and> (wf_tensor y \<longrightarrow>
                 loc d = tanh_tensor y \<and> scale d = full (shape y) (Decoder_std self))
            \<and> Decoder_convts self'
                = (Decoder_convts self)[0 := m0, 1 := m1, 2 := m2, 3 := m3, 4 := m4, 5 := m5,
                                        6 := m6, 7 := m7, 8 := m8])"
proof -
  from assms obtain nb ld latent1 latent2 ms y m8 where
    sh: "shape latent = [nb, ld]" and
    vw: "view latent [nb, ld, 1, 1] = Inr latent1" and
    lp: "conv_loop call (Decoder_leaky_slope self) [0..<8] (Decoder_convts self) latent1 = (Inr latent2, ms)" and
    l8: "8 < length ms" and
    c8: "call (ms ! 8) (PyTensor latent2) = (Inr y, m8)" and
    n: "Normal (tanh_tensor y) (mul_scalar (ones_like (tanh_tensor y)) (Decoder_std self)) = Inr d" and
    se: "self' = self\<lparr>Decoder_convts := ms[8 := m8]\<rparr>"
    by (rule Decoder_forward_InrE)
  from lp obtain y0 m0 y1 m1 y2 m2 y3 m3 y4 m4 y5 m5 y6 m6 y7 m7 where
    c0: "call (Decoder_convts self ! 0) (PyTensor latent1) = (Inr y0, m0)" and
    c1: "call (Decoder_convts self ! 1) (PyTensor (leaky_relu y0 (Decoder_leaky_slope self))) = (Inr y1, m1)" and
    c2: "call (Decoder_convts self ! 2) (PyTensor (leaky_relu y1 (Decoder_leaky_slope self))) = (Inr y2, m2)" and
    c3: "call (Decoder_convts self ! 3) (PyTensor (leaky_relu y2 (Decoder_leaky_slope self))) = (Inr y3, m3)" and
    c4: "call (Decoder_convts self ! 4) (PyTensor (leaky_relu y3 (Decoder_leaky_slope self))) = (Inr y4, m4)" and
    c5: "call (Decoder_convts self ! 5) (PyTensor (leaky_relu y4 (Decoder_leaky_slope self))) = (Inr y5, m5)" and
    c6: "call (Decoder_convts self ! 6) (PyTensor (leaky_relu y5 (Decoder_leaky_slope self))) = (Inr y6, m6)" and
    c7: "call (Decoder_convts self ! 7) (PyTensor (leaky_relu y6 (Decoder_leaky_slope self))) = (Inr y7, m7)" and
    l2: "latent2 = leaky_relu y7 (Decoder_leaky_slope self)" and
    ms: "ms = (Decoder_convts self)[0 := m0, 1 := m1, 2 := m2, 3 := m3, 4 := m4, 5 := m5, 6 := m6, 7 := m7]"
    by (rule conv_loop8_Inr)
  from l8 ms have ln: "9 \<le> length (Decoder_convts self)" by simp
  from ms have m8: "ms ! 8 = Decoder_convts self ! 8" by simp
  from se ms have s2: "Decoder_convts self'
      = (Decoder_convts self)[0 := m0, 1 := m1, 2 := m2, 3 := m3, 4 := m4, 5 := m5,
                              6 := m6, 7 := m7, 8 := m8]" by simp
  have sh2: "shape (mul_scalar (ones_like (tanh_tensor y)) (Decoder_std self)) = shape (tanh_tensor y)"
    by (simp add: const_scale_full full_def)
  have a: "\<forall>v \<in> set (data (loc d)). - 1 \<le> v \<and> v \<le> 1"
    using Normal_entries(1)[OF n] tanh_tensor_entries by blast
  have b: "\<forall>v \<in> set (data (scale d)). v = Decoder_std self"
    using Normal_entries(2)[OF n] const_scale_entries by blast
  have s: "shape (loc d) = shape y"
    using Normal_shape_same[OF n sh2] by (simp add: tanh_tensor_def map_tensor_def)
  have w: "wf_tensor y \<longrightarrow> loc d = tanh_tensor y \<and> scale d = full (shape y) (Decoder_std self)"
  proof
    assume "wf_tensor y"
    then have "wf_tensor (tanh_tensor y)" by (simp add: wf_tensor_def tanh_tensor_def map_tensor_def)
    moreover have "wf_tensor (mul_scalar (ones_like (tanh_tensor y)) (Decoder_std self))"
      by (simp add: const_scale_full wf_full)
    ultimately have "d = \<lparr>loc = tanh_tensor y, scale = mul_scalar (ones_like (tanh_tensor y)) (Decoder_std self)\<rparr>"
      using sh2 by (rule Normal_same_shape_Inr[OF n])
    then show "loc d = tanh_tensor y \<and> scale d = full (shape y) (Decoder_std self)"
      by (simp add: const_scale_full tanh_tensor_def map_tensor_def)
  qed
  have "\<exists>num_batches latent_dim latent1 y0 m0 y1 m1 y2 m2 y3 m3 y4 m4 y5 m5 y6 m6 y7 m7 y m8.
            shape latent = [num_batches, latent_dim]
            \<and> view latent [num_batches, latent_dim, 1, 1] = Inr latent1
            \<and> 9 \<le> length (Decoder_convts self)
            \<and> call (Decoder_convts self ! 0) (PyTensor latent1) = (Inr y0, m0)
            \<and> call (Decoder_convts self ! 1) (PyTensor (leaky_relu y0 (Decoder_leaky_slope self))) = (Inr y1, m1)
            \<and> call (Decoder_convts self ! 2) (PyTensor (leaky_relu y1 (Decoder_leaky_slope self))) = (Inr y2, m2)
            \<and> call (Decoder_convts self ! 3) (PyTensor (leaky_relu y2 (Decoder_leaky_slope self))) = (Inr y3, m3)
            \<and> call (Decoder_convts self ! 4) (PyTensor (leaky_relu y3 (Decoder_leaky_slope self))) = (Inr y4, m4)
            \<and> call (Decoder_convts self ! 5) (PyTensor (leaky_relu y4 (Decoder_leaky_slope self))) = (Inr y5, m5)
            \<and> call (Decoder_convts self ! 6) (PyTensor (leaky_relu y5 (Decoder_leaky_slope self))) = (Inr y6, m6)
            \<and> call (Decoder_convts self ! 7) (PyTensor (leaky_relu y6 (Decoder_leaky_slope self))) = (Inr y7, m7)
            \<and> call (Decoder_convts self ! 8) (PyTensor (leaky_relu y7 (Decoder_leaky_slope self))) = (Inr y, m8)
            \<and> Normal (tanh_tensor y) (mul_scalar (ones_like (tanh_tensor y)) (Decoder_std self)) = Inr d
            \<and> shape (loc d) = shape y
            \<and> (wf_tensor y \<longrightarrow>
                 loc d = tanh_tensor y \<and> scale d = full (shape y) (Decoder_std self))
            \<and> Decoder_convts self'
                = (Decoder_convts self)[0 := m0, 1 := m1, 2 := m2, 3 := m3, 4 := m4, 5 := m5,
                                        6 := m6, 7 := m7, 8 := m8]"
    using sh vw ln c0 c1 c2 c3 c4 c5 c6 c7 c8[unfolded m8 l2] n s w s2
    by (intro exI conjI)
  with a b Normal_entries(3)[OF n] show ?thesis by (intro conjI)
qed

theorem Decoder_forward_mean_and_scale_witness:
  "fst (Decoder_forward example_call example_decoder example_latent)
   = Inr \<lparr>loc = \<lparr>shape = [2, 1, 1, 1], data = [tanh (- (11 / 8)), tanh (3 / 4)]\<rparr>,
          scale = \<lparr>shape = [2, 1, 1, 1], data = [1 / 2, 1 / 2]\<rparr>\<rparr>
   \<and> - 1 \<le> tanh (- (11 / 8) :: real) \<and> tanh (- (11 / 8) :: real) \<le> 1
   \<and> - 1 \<le> tanh (3 / 4 :: real) \<and> tanh (3 / 4 :: real) \<le> 1
   \<and> Decoder_std example_decoder = 1 / 2"
  using example_decoder_forward Decoder_forward_mean_and_scale[OF example_decoder_forward]
  by (simp add: example_decoder_def del: tanh_real_neg_iff tanh_minus)

subsection \<open>C6\<close>

text \<open>Claim C6 fails as stated. With \<open>std = 0\<close> the scale is zero everywhere, and the
  constructor of the normal distribution refuses it: the forward pass raises
  \<^verbatim>\<open>ValueError\<close> instead of returning a distribution.\<close>

theorem ConstantGaussian_zero_std_counterexample:
  "fst (ConstantGaussian_forward (ConstantGaussian_init 1 0) \<lparr>shape = [1], data = [5]\<rparr>)
   = Inl ValueError"
  by (simp add: ConstantGaussian_forward_def ConstantGaussian_init_def size_at_def to_like_def
      Normal_def broadcast_shapes_same zeros_def ones_def full_def mul_scalar_def map_tensor_def
      expand_def pad_shape_def)

text \<open>Claim C6, amended. On an input whose first size is \<open>n\<close>, and for a positive
  \<open>std\<close> of the construction (or when \<open>(n, output_dim)\<close> has no position at all),
  \<^verbatim>\<open>ConstantGaussian.forward\<close> returns the normal distribution of sizes
  \<open>(n, output_dim)\<close> whose mean is zero everywhere and whose scale is \<open>std\<close> everywhere;
  for any other \<open>std\<close> it raises \<^verbatim>\<open>ValueError\<close>.\<close>

theorem ConstantGaussian_forward_constant:
  assumes "shape x = n # rest"
  shows "ConstantGaussian_forward (ConstantGaussian_init output_dim std) x
         = (if 0 < std \<or> n * output_dim = 0
            then Inr \<lparr>loc = zeros [n, output_dim], scale = full [n, output_dim] std\<rparr>
            else Inl ValueError,
            ConstantGaussian_init output_dim std)"
proof -
  have s: "mul_scalar (ones [n, output_dim]) std = full [n, output_dim] std"
    by (simp add: mul_scalar_def map_tensor_def ones_def full_def)
  have v: "list_all (\<lambda>v. 0 < v) (data (full [n, output_dim] std)) \<longleftrightarrow> 0 < std \<or> n * output_dim = 0"
    by (auto simp: full_def list_all_iff)
  have "Normal (zeros [n, output_dim]) (full [n, output_dim] std)
        = (if list_all (\<lambda>v. 0 < v) (data (full [n, output_dim] std))
           then Inr \<lparr>loc = zeros [n, output_dim], scale = full [n, output_dim] std\<rparr>
           else Inl ValueError)"
    by (rule Normal_wf_same) (simp_all add: zeros_def wf_full, simp add: full_def)
  then have "Normal (zeros [n, output_dim]) (full [n, output_dim] std)
        = (if 0 < std \<or> n * output_dim = 0
           then Inr \<lparr>loc = zeros [n, output_dim], scale = full [n, output_dim] std\<rparr>
           else Inl ValueError)"
    by (simp only: v)
  then show ?thesis using assms s
    by (simp add: ConstantGaussian_forward_def ConstantGaussian_init_def size_at_def to_like_def Let_def)
qed

theorem ConstantGaussian_forward_constant_witness:
  "shape \<lparr>shape = [2, 3], data = [1, 2, 3, 4, 5, 6]\<rparr> = 2 # [3]
   \<and> fst (ConstantGaussian_forward (ConstantGaussian_init 1 (1 / 2))
           \<lparr>shape = [2, 3], data = [1, 2, 3, 4, 5, 6]\<rparr>)
     = Inr \<lparr>loc = \<lparr>shape = [2, 1], data = [0, 0]\<rparr>, scale = \<lparr>shape = [2, 1], data = [1 / 2, 1 / 2]\<rparr>\<rparr>"
  using ConstantGaussian_forward_constant[of "\<lparr>shape = [2, 3], data = [1, 2, 3, 4, 5, 6]\<rparr>" 2 "[3]" 1 "1 / 2"]
  by (simp add: zeros_def full_def numeral_2_eq_2)

subsection \<open>C7\<close>

text \<open>Claim C7. When calling a layer of the library leaves the layer as it was, a
  forward pass of \<^verbatim>\<open>Gaussian\<close>, \<^verbatim>\<open>ConstantGaussian\<close>, \<^verbatim>\<open>Encoder\<close>, \<^verbatim>\<open>Decoder\<close> or
  \<^verbatim>\<open>TaskNetwork\<close> leaves the module, with every weight and bias in it, as it
  was.\<close>

theorem forward_leaves_parameters:
  assumes "\<forall>m v. snd (call m v) = m"
  shows "snd (Gaussian_forward call gau x) = gau
       \<and> snd (ConstantGaussian_forward cg t) = cg
       \<and> snd (Encoder_forward call enc t) = enc
       \<and> snd (Decoder_forward call dec t) = dec
       \<and> snd (TaskNetwork_forward call task x) = task"
proof (intro conjI)
  show "snd (Gaussian_forward call gau x) = gau" using assms by (rule Gaussian_forward_keeps)
  show "snd (ConstantGaussian_forward cg t) = cg"
    by (simp add: ConstantGaussian_forward_def Let_def split: sum.splits)
  show "snd (Encoder_forward call enc t) = enc" using assms by (rule Encoder_forward_keeps)
  show "snd (Decoder_forward call dec t) = dec" using assms by (rule Decoder_forward_keeps)
  show "snd (TaskNetwork_forward call task x) = task" using assms by (rule TaskNetwork_forward_keeps)
qed

theorem forward_leaves_parameters_witness:
  "snd (Gaussian_forward example_call (Encoder_gau example_encoder) (PyTensor \<lparr>shape = [1, 2], data = [1, - 1]\<rparr>))
     = Encoder_gau example_encoder
   \<and> snd (ConstantGaussian_forward (ConstantGaussian_init 1 (1 / 2)) example_latent)
     = ConstantGaussian_init 1 (1 / 2)
   \<and> snd (Encoder_forward example_call example_encoder example_image) = example_encoder
   \<and> snd (Decoder_forward example_call example_decoder example_latent) = example_decoder
   \<and> snd (TaskNetwork_forward example_call \<lparr>TaskNetwork_net = Linear 2 2 [1, 0, 0, 1] [0, 0]\<rparr>
             (PyTensor \<lparr>shape = [1, 2], data = [1, - 1]\<rparr>))
     = \<lparr>TaskNetwork_net = Linear 2 2 [1, 0, 0, 1] [0, 0]\<rparr>"
proof -
  have h: "\<forall>m v. snd (example_call m v) = m" by (simp add: example_call_keeps)
  show ?thesis
    using forward_leaves_parameters[OF h, of "Encoder_gau example_encoder" "PyTensor \<lparr>shape = [1, 2], data = [1, - 1]\<rparr>"
        "ConstantGaussian_init 1 (1 / 2)" example_latent example_encoder example_decoder
        "\<lparr>TaskNetwork_net = Linear 2 2 [1, 0, 0, 1] [0, 0]\<rparr>"]
      forward_leaves_parameters[OF h, of _ _ _ example_image example_encoder]
    by simp
qed

subsection \<open>C8\<close>

text \<open>Claim C8 fails as stated. A Gaussian constructed with \<open>std = 0\<close> and
  \<open>output_dim = 3\<close> gets a network of three outputs; on an input of sizes \<open>(1, 1)\<close> the
  chunks of the output have last sizes 2 and 1, the library broadcasts the scale, and
  the normal distribution returned has last size 2, which is not \<open>3 // 2 = 1\<close>.\<close>

theorem Gaussian_zero_std_counterexample:
  "Gaussian_init example_base 1 3 [] (Some 0) (1 / 5) ()
   = (Inr \<lparr>Gaussian_net = Sequential [Linear 1 3 [1, 1, 1] [0, 0, 0]], Gaussian_std = Some 0\<rparr>, ())
   \<and> fst (Gaussian_forward example_call
            \<lparr>Gaussian_net = Sequential [Linear 1 3 [1, 1, 1] [0, 0, 0]], Gaussian_std = Some 0\<rparr>
            (PyTensor \<lparr>shape = [1, 1], data = [2]\<rparr>))
     = Inr \<lparr>loc = \<lparr>shape = [1, 2], data = [2, 2]\<rparr>,
            scale = \<lparr>shape = [1, 2], data = [softplus1 2 + 1 / 100000, softplus1 2 + 1 / 100000]\<rparr>\<rparr>
   \<and> last (shape (loc \<lparr>loc = \<lparr>shape = [1, 2], data = [2, 2]\<rparr>,
            scale = \<lparr>shape = [1, 2], data = [softplus1 2 + 1 / 100000, softplus1 2 + 1 / 100000]\<rparr>\<rparr>))
     \<noteq> 3 div 2"
  using example_zero_std_init example_zero_std_forward by simp

text \<open>Claim C8, amended. A Gaussian constructed with \<open>std = 0\<close> gets a network of
  \<open>output_dim\<close> outputs, and its forward pass takes the branch of the learned scale:
  it chunks the output of the network in two. Whenever it returns a normal
  distribution, \<open>output_dim\<close> is even or 3, the distribution has last size
  \<open>(output_dim + 1) // 2\<close>, which is \<open>output_dim // 2\<close> when \<open>output_dim\<close> is even, and its
  scale is the softplus of the second chunk plus \<open>1e-5\<close>, strictly positive at every
  position, not the constant 0.\<close>

theorem Gaussian_zero_std_forward:
  assumes "create_sizes_output call base"
    and "Gaussian_init base input_dim output_dim hidden_units (Some 0) leaky_slope g = (Inr self, g1)"
    and "Gaussian_forward call self x = (Inr d, self')"
  shows "(even output_dim \<or> output_dim = 3)
       \<and> shape (loc d) \<noteq> [] \<and> last (shape (loc d)) = (output_dim + 1) div 2
       \<and> shape (scale d) = shape (loc d)
       \<and> (even output_dim \<longrightarrow> last (shape (loc d)) = output_dim div 2)
       \<and> (\<forall>v \<in> set (data (scale d)). 0 < v)
       \<and> (\<exists>y mean std. shape y \<noteq> [] \<and> last (shape y) = output_dim
            \<and> chunk y 2 = Inr [mean, std]
            \<and> Normal mean (add_scalar (softplus std) (1 / 100000)) = Inr d)"
proof -
  from assms(2) have net: "create_linear_network base input_dim output_dim hidden_units
      (LeakyReLU leaky_slope) (weights_init_xavier base) g = (Inr (Gaussian_net self), g1)"
    and std: "Gaussian_std self = Some 0"
    by (auto simp: Gaussian_init_def split: prod.splits sum.splits)
  from net assms(1) have o: "out_features call (Gaussian_net self) output_dim"
    unfolding create_sizes_output_def by blast
  from std have nt: "\<not> truthy (Gaussian_std self)" by (simp add: truthy_def)
  from assms(3) obtain x1 y n1 where
    "Gaussian_input x = Inr x1" and
    c: "call (Gaussian_net self) x1 = (Inr y, n1)" and
    "self' = self\<lparr>Gaussian_net := n1\<rparr>" and
    "truthy (Gaussian_std self) \<longrightarrow>
       Normal y (mul_scalar (ones_like y) (the (Gaussian_std self))) = Inr d" and
    f: "\<not> truthy (Gaussian_std self) \<longrightarrow>
       (\<exists>mean std. chunk y 2 = Inr [mean, std] \<and> Normal mean (add_scalar (softplus std) (1 / 100000)) = Inr d)"
    by (rule Gaussian_forward_InrE)
  from f nt obtain mean std where
    k: "chunk y 2 = Inr [mean, std]" and
    n: "Normal mean (add_scalar (softplus std) (1 / 100000)) = Inr d" by blast
  from o c have y: "shape y \<noteq> []" "last (shape y) = output_dim"
    unfolding out_features_def by blast+
  define s where "s = (output_dim + 1) div 2"
  from chunk_two_shapes[OF k] y have
    sm: "shape mean = butlast (shape y) @ [s]" and
    ss: "shape (add_scalar (softplus std) (1 / 100000)) = butlast (shape y) @ [output_dim - s]" and
    n1: "output_dim \<noteq> 1"
    by (simp_all add: s_def add_scalar_def softplus_def map_tensor_def)
  from n obtain sh where
    b: "broadcast_shapes (shape mean) (shape (add_scalar (softplus std) (1 / 100000))) = Inr sh"
    and l: "shape (loc d) = sh"
    by (auto simp: Normal_def expand_def split: sum.splits if_splits)
  from b sm ss have bl: "(s = output_dim - s \<or> s = 1 \<or> output_dim - s = 1) \<and> sh \<noteq> []
      \<and> last sh = (if s = 1 then output_dim - s else s)"
    using broadcast_shapes_last[of "butlast (shape y)" s "output_dim - s" sh] by simp
  from bl have c1: "s = output_dim - s \<or> s = 1 \<or> output_dim - s = 1"
    and c2: "last sh = (if s = 1 then output_dim - s else s)" by simp_all
  have e: "even output_dim \<or> output_dim = 3" using c1 n1 unfolding s_def by presburger
  have "s = 1 \<longrightarrow> output_dim - s = s" using n1 unfolding s_def by presburger
  with c2 have "last sh = s" by simp
  then have la: "last sh = (output_dim + 1) div 2" by (simp add: s_def)
  have "even output_dim \<longrightarrow> (output_dim + 1) div 2 = output_dim div 2" by presburger
  with la have ev: "even output_dim \<longrightarrow> last sh = output_dim div 2" by simp
  have pos: "\<forall>v \<in> set (data (scale d)). 0 < v"
    using Normal_entries(2)[OF n] softplus_scale_entries by blast
  show ?thesis
    using e bl la ev l Normal_entries(3)[OF n] pos y k n by blast
qed

theorem Gaussian_zero_std_forward_witness:
  "create_sizes_output example_call example_base
   \<and> Gaussian_init example_base 2 2 [] (Some 0) (1 / 5) ()
     = (Inr \<lparr>Gaussian_net = Sequential [Linear 2 2 [1, 1, 1, 1] [0, 0]], Gaussian_std = Some 0\<rparr>, ())
   \<and> fst (Gaussian_forward example_call
            \<lparr>Gaussian_net = Sequential [Linear 2 2 [1, 1, 1, 1] [0, 0]], Gaussian_std = Some 0\<rparr>
            (PyTensor \<lparr>shape = [1, 2], data = [3, 4]\<rparr>))
     = Inr \<lparr>loc = \<lparr>shape = [1, 1], data = [7]\<rparr>,
            scale = \<lparr>shape = [1, 1], data = [softplus1 7 + 1 / 100000]\<rparr>\<rparr>
   \<and> last [1, 1 :: nat] = 2 div 2
   \<and> 0 < softplus1 7 + 1 / 100000"
proof -
  have "last (shape (loc \<lparr>loc = \<lparr>shape = [1, 1], data = [7]\<rparr>,
            scale = \<lparr>shape = [1, 1], data = [softplus1 7 + 1 / 100000]\<rparr>\<rparr>)) = (2 + 1) div 2
      \<and> (\<forall>v \<in> set (data (scale \<lparr>loc = \<lparr>shape = [1, 1], data = [7]\<rparr>,
            scale = \<lparr>shape = [1, 1], data = [softplus1 7 + 1 / 100000]\<rparr>\<rparr>)). 0 < v)"
    using Gaussian_zero_std_forward[OF example_base_sizes example_zero_std_even_init
        example_zero_std_even_forward] by blast
  then have "0 < softplus1 7 + 1 / 100000" by simp
  then show ?thesis
    using example_base_sizes example_zero_std_even_init example_zero_std_even_forward by simp
qed

subsection \<open>C9\<close>

text \<open>Claim C9. \<^verbatim>\<open>ConstantGaussian.forward\<close> reads nothing of its input but the
  first size: two inputs with the same first size (both without one, too) get the
  same result.\<close>

theorem ConstantGaussian_forward_noninterference:
  assumes "size_at x 0 = size_at y 0"
  shows "ConstantGaussian_forward self x = ConstantGaussian_forward self y"
  using assms by (simp add: ConstantGaussian_forward_def to_like_def split: sum.splits)

theorem ConstantGaussian_forward_noninterference_witness:
  "size_at \<lparr>shape = [2, 3], data = [1, 2, 3, 4, 5, 6]\<rparr> 0 = size_at \<lparr>shape = [2], data = [- 7, 9]\<rparr> 0
   \<and> ConstantGaussian_forward (ConstantGaussian_init 1 (1 / 2)) \<lparr>shape = [2, 3], data = [1, 2, 3, 4, 5, 6]\<rparr>
     = ConstantGaussian_forward (ConstantGaussian_init 1 (1 / 2)) \<lparr>shape = [2], data = [- 7, 9]\<rparr>"
proof -
  have h: "size_at \<lparr>shape = [2, 3], data = [1, 2, 3, 4, 5, 6]\<rparr> 0 = size_at \<lparr>shape = [2], data = [- 7, 9]\<rparr> 0"
    by (simp add: size_at_def)
  show ?thesis using h ConstantGaussian_forward_noninterference[OF h] by simp
qed

subsection \<open>C10\<close>

text \<open>Claim C10. When the concatenation of a list of tensors along the last dimension
  is well formed, \<^verbatim>\<open>Gaussian.forward\<close> on the list is \<^verbatim>\<open>Gaussian.forward\<close> on the
  concatenation, and likewise for \<^verbatim>\<open>TaskNetwork.forward\<close>.\<close>

theorem forward_of_list_is_forward_of_cat:
  assumes "cat ts = Inr t"
  shows "Gaussian_forward call gau (PyList ts) = Gaussian_forward call gau (PyTensor t)
       \<and> TaskNetwork_forward call task (PyList ts) = TaskNetwork_forward call task (PyTensor t)"
  using assms by (simp add: Gaussian_forward_def TaskNetwork_forward_def)

theorem forward_of_list_is_forward_of_cat_witness:
  "cat [\<lparr>shape = [2, 1], data = [1, 2]\<rparr>, \<lparr>shape = [2, 2], data = [3, 4, 5, 6]\<rparr>]
   = Inr \<lparr>shape = [2, 3], data = [1, 3, 4, 2, 5, 6]\<rparr>
   \<and> Gaussian_forward example_call \<lparr>Gaussian_net = Linear 3 2 [1, 0, 0, 0, 1, 0] [0, 0], Gaussian_std = None\<rparr>
       (PyList [\<lparr>shape = [2, 1], data = [1, 2]\<rparr>, \<lparr>shape = [2, 2], data = [3, 4, 5, 6]\<rparr>])
     = Gaussian_forward example_call \<lparr>Gaussian_net = Linear 3 2 [1, 0, 0, 0, 1, 0] [0, 0], Gaussian_std = None\<rparr>
       (PyTensor \<lparr>shape = [2, 3], data = [1, 3, 4, 2, 5, 6]\<rparr>)
   \<and> TaskNetwork_forward example_call \<lparr>TaskNetwork_net = Linear 3 2 [1, 0, 0, 0, 1, 0] [0, 0]\<rparr>
       (PyList [\<lparr>shape = [2, 1], data = [1, 2]\<rparr>, \<lparr>shape = [2, 2], data = [3, 4, 5, 6]\<rparr>])
     = TaskNetwork_forward example_call \<lparr>TaskNetwork_net = Linear 3 2 [1, 0, 0, 0, 1, 0] [0, 0]\<rparr>
       (PyTensor \<lparr>shape = [2, 3], data = [1, 3, 4, 2, 5, 6]\<rparr>)"
  using example_cat forward_of_list_is_forward_of_cat[OF example_cat, of example_call]
  by simp

end
